theory Spec2Isabelle
  imports Complex_Main "HOL-Library.Sublist"
begin

section \<open>JavaScript values used by the export service\<close>

text \<open>
  The export service (\<^verbatim>\<open>frontend/src/services/ExportService.ts\<close>) is embedded
  function by function. A string is a list of code units below 256 (the ISO-8859-1 range
  of UTF-16), which is what the 8-bit \<open>char\<close> of HOL can hold.
\<close>

subsection \<open>Numbers: binary64 arithmetic\<close>

text \<open>
  A JavaScript number is an IEEE 754 binary64 value. A finite number is modelled as the
  real it denotes, and every arithmetic operation of the source rounds its exact result
  to the nearest binary64 value, ties to the even significand. Infinities, NaN and the
  sign of zero are not modelled: the expressions of the service divide by a constant
  before they multiply and cannot overflow on finite operands.
\<close>

type_synonym number = real

text \<open>The binary exponent of a positive real: the \<open>e\<close> with \<open>2\<^sup>e \<le> q < 2\<^sup>e\<^sup>+\<^sup>1\<close>.\<close>

function exponent_up :: "real \<Rightarrow> int" where
  "exponent_up q = (if q < 2 then 0 else exponent_up (q / 2) + 1)"
  by pat_completeness auto
termination
proof (relation "measure (\<lambda>q. nat \<lceil>q\<rceil>)")
  show "wf (measure (\<lambda>q. nat \<lceil>q\<rceil>))"
    by simp
next
  fix q :: real
  assume big: "\<not> q < 2"
  then have "\<lceil>q / 2\<rceil> < \<lceil>q\<rceil>"
    by linarith
  moreover have "0 < \<lceil>q\<rceil>"
    using big by linarith
  ultimately show "(q / 2, q) \<in> measure (\<lambda>q. nat \<lceil>q\<rceil>)"
    by simp
qed

function exponent_down :: "real \<Rightarrow> int" where
  "exponent_down q = (if q \<le> 0 \<or> 1 \<le> q then 0 else exponent_down (q * 2) - 1)"
  by pat_completeness auto
termination
proof (relation "measure (\<lambda>q. nat \<lceil>1 / q\<rceil>)")
  show "wf (measure (\<lambda>q. nat \<lceil>1 / q\<rceil>))"
    by simp
next
  fix q :: real
  assume "\<not> (q \<le> 0 \<or> 1 \<le> q)"
  then have q: "0 < q" "q < 1"
    by simp_all
  define r where "r = 1 / q"
  have r: "1 < r"
    using q by (simp add: r_def)
  have half: "1 / (q * 2) = r / 2"
    by (simp add: r_def)
  have "\<lceil>r / 2\<rceil> < \<lceil>r\<rceil>"
  proof (cases "r \<le> 2")
    case True
    then have "\<lceil>r / 2\<rceil> \<le> 1"
      by (simp add: ceiling_le_iff)
    moreover have "2 \<le> \<lceil>r\<rceil>"
      using r by linarith
    ultimately show ?thesis
      by linarith
  next
    case False
    then show ?thesis
      by linarith
  qed
  moreover have "0 < \<lceil>r\<rceil>"
    using r by linarith
  ultimately show "(q * 2, q) \<in> measure (\<lambda>q. nat \<lceil>1 / q\<rceil>)"
    by (simp add: half) (simp add: r_def)
qed

declare exponent_up.simps [simp del] exponent_down.simps [simp del]

text \<open>
  The exponent of the binade of \<open>q\<close>, not below \<open>-1022\<close> (below it the numbers are
  subnormal and share the spacing of the lowest binade); the spacing of the binary64
  numbers in that binade (53 significant bits); rounding to the nearest integer, ties
  to even; and the nearest binary64 value of a real.
\<close>

definition exponent :: "real \<Rightarrow> int" where
  "exponent q = max (- 1022) (if 1 \<le> \<bar>q\<bar> then exponent_up \<bar>q\<bar> else exponent_down \<bar>q\<bar>)"

definition ulp :: "real \<Rightarrow> real" where
  "ulp q = 2 powi (exponent q - 52)"

definition round_half_even :: "real \<Rightarrow> int" where
  "round_half_even m =
     (let f = \<lfloor>m\<rfloor>; d = m - of_int f
      in if d < 1 / 2 then f else if 1 / 2 < d then f + 1 else if even f then f else f + 1)"

definition binary64 :: "real \<Rightarrow> number" where
  "binary64 q = of_int (round_half_even (q / ulp q)) * ulp q"

text \<open>
  The operators \<open>/\<close>, \<open>*\<close>, \<open>+\<close> and \<open>-\<close> of the source. A decimal literal of the
  source such as \<open>5.6\<close> is the number \<open>binary64 5.6\<close>; an integer literal is itself.
\<close>

definition div64 :: "number \<Rightarrow> number \<Rightarrow> number" where
  "div64 a b = binary64 (a / b)"

definition mul64 :: "number \<Rightarrow> number \<Rightarrow> number" where
  "mul64 a b = binary64 (a * b)"

definition add64 :: "number \<Rightarrow> number \<Rightarrow> number" where
  "add64 a b = binary64 (a + b)"

definition sub64 :: "number \<Rightarrow> number \<Rightarrow> number" where
  "sub64 a b = binary64 (a - b)"

subsection \<open>Thrown values\<close>

text \<open>
  Anything can be thrown. The \<open>catch\<close> block of \<open>exportDashboard\<close> reads the
  \<open>message\<close> property of what it caught, so a thrown value is modelled by what that
  read gives: an \<open>Error\<close> object (a \<open>TypeError\<close> is named apart) carries its message;
  another value that is neither \<open>null\<close> nor \<open>undefined\<close> (a string, a number, an
  object without that property) has none; \<open>null\<close> and \<open>undefined\<close> have no
  properties at all.
\<close>

datatype thrown = Error string | TypeError string | Other_value | Null_value | Undefined_value

text \<open>
  What the language runtime decides and the source does not: the decimal rendering of a
  number that is not a small integer, and the message texts of the \<open>TypeError\<close> raised
  when a property of \<open>undefined\<close> or of \<open>null\<close> is read (they differ between
  engines).
\<close>

record runtime =
  runtime_toString :: "number \<Rightarrow> string"
  undefined_read_message :: "string \<Rightarrow> string"
  null_read_message :: "string \<Rightarrow> string"

text \<open>
  The interpolation \<open>${error.message}\<close>: the message of an error object, the text
  \<open>undefined\<close> for a value without a message, and a \<open>TypeError\<close> for \<open>null\<close> and
  \<open>undefined\<close>.
\<close>

fun read_message :: "runtime \<Rightarrow> thrown \<Rightarrow> thrown + string" where
  "read_message rt (Error m) = Inr m"
| "read_message rt (TypeError m) = Inr m"
| "read_message rt Other_value = Inr ''undefined''"
| "read_message rt Null_value = Inl (TypeError (null_read_message rt ''message''))"
| "read_message rt Undefined_value = Inl (TypeError (undefined_read_message rt ''message''))"

subsection \<open>Number to string\<close>

definition digit_char :: "nat \<Rightarrow> char" where
  "digit_char d = char_of (of_char (CHR ''0'') + d)"

function nat_toString :: "nat \<Rightarrow> string" where
  "nat_toString n =
     (if n < 10 then [digit_char n]
      else nat_toString (n div 10) @ [digit_char (n mod 10)])"
  by pat_completeness auto
termination
  by (relation "measure (\<lambda>n. n)") auto

declare nat_toString.simps [simp del]

definition int_toString :: "int \<Rightarrow> string" where
  "int_toString i = (if i < 0 then CHR ''-'' # nat_toString (nat (- i)) else nat_toString (nat i))"

text \<open>
  \<open>Number::toString\<close> of ECMAScript: an integer-valued number of magnitude below
  \<open>2\<^sup>5\<^sup>3\<close> prints as its decimal digits (with a leading minus sign when negative);
  every other number is printed by the runtime (the shortest digits that read back as
  the same binary64 value).
\<close>

definition Number_toString :: "runtime \<Rightarrow> number \<Rightarrow> string" where
  "Number_toString rt r =
     (if r = of_int \<lfloor>r\<rfloor> \<and> \<bar>r\<bar> < 2 ^ 53 then int_toString \<lfloor>r\<rfloor>
      else runtime_toString rt r)"

subsection \<open>Strings: \<open>replace(/\\s+/g, '_')\<close> and \<open>toLowerCase()\<close>\<close>

text \<open>
  The class \<open>\\s\<close> of a JavaScript regular expression, on code units below 256: tab,
  line feed, vertical tab, form feed, carriage return, space and the no-break space.
\<close>

definition is_white_space :: "char \<Rightarrow> bool" where
  "is_white_space c = ((of_char c :: nat) \<in> {9, 10, 11, 12, 13, 32, 160})"

text \<open>
  The global replacement scans from the left; at the first code unit of a match the
  greedy \<open>\\s+\<close> takes the whole run, the run is replaced by one underscore and the scan
  resumes behind it.
\<close>

function replace_whitespace :: "string \<Rightarrow> string" where
  "replace_whitespace [] = []"
| "replace_whitespace (c # cs) =
     (if is_white_space c then CHR ''_'' # replace_whitespace (dropWhile is_white_space cs)
      else c # replace_whitespace cs)"
  by pat_completeness auto
termination
  by (relation "measure length") (auto simp: less_Suc_eq_le length_dropWhile_le)

text \<open>
  \<open>toLowerCase\<close> on code units below 256: the letters A to Z and the accented capitals
  \<open>0xC0\<close> to \<open>0xDE\<close> (the multiplication sign \<open>0xD7\<close> apart) move up by 32.
\<close>

definition lower_char :: "char \<Rightarrow> char" where
  "lower_char c =
     (let n = (of_char c :: nat)
      in if (65 \<le> n \<and> n \<le> 90) \<or> (192 \<le> n \<and> n \<le> 222 \<and> n \<noteq> 215) then char_of (n + 32) else c)"

definition toLowerCase :: "string \<Rightarrow> string" where
  "toLowerCase s = map lower_char s"

text \<open>Truthiness of an optional string: \<open>undefined\<close> and the empty string are falsy.\<close>

definition truthy :: "string option \<Rightarrow> bool" where
  "truthy s = (case s of None \<Rightarrow> False | Some t \<Rightarrow> t \<noteq> [])"

text \<open>The expression \<open>s || ''\<close>.\<close>

definition or_empty :: "string option \<Rightarrow> string" where
  "or_empty s = (if truthy s then the s else [])"

section \<open>Data model\<close>

text \<open>
  Modelled from the spec: the declarations of \<open>DashboardConfig\<close>, \<open>ExportFormat\<close> and
  \<open>ExportResponse\<close> (\<^verbatim>\<open>shared/types/dashboard\<close>) are not among the sources; the
  records follow section 3 of the specification and the fields the service reads. A
  field the specification calls optional is an \<open>option\<close> (\<open>None\<close> is \<open>undefined\<close>).
  The payload of a component is one object whose chart and kpi fields may each be
  absent. The component type and the export format are strings, since the service
  compares them with string literals and has a branch for every other value.
\<close>

record position =
  pos_x :: number
  pos_y :: number

record size2 =
  width :: number
  height :: number

record dataset =
  labels :: "string list option"
  data :: "number list"

datatype kpi_value = Num number | Str string

record payload =
  datasets :: "dataset list option"
  kpi_val :: "kpi_value option"
  kpi_unit :: "string option"

record component =
  c_id :: string
  c_type :: string
  c_title :: "string option"
  c_position :: position
  c_size :: size2
  c_data :: payload

record theme =
  primaryColor :: string
  backgroundColor :: string
  textColor :: string
  fontFamily :: string

record dashboard =
  d_title :: string
  d_theme :: theme
  d_components :: "component list"

record ExportResponse =
  success :: bool
  downloadUrl :: "string option"
  filename :: "string option"
  error :: "string option"

text \<open>A value interpolated into a template literal.\<close>

definition interpolate :: "runtime \<Rightarrow> kpi_value option \<Rightarrow> string" where
  "interpolate rt v =
     (case v of None \<Rightarrow> ''undefined'' | Some (Num n) \<Rightarrow> Number_toString rt n | Some (Str s) \<Rightarrow> s)"

section \<open>The collaborators of the service\<close>

text \<open>
  The rendering surface and the libraries are outside the service. Each call of the
  source into them is a function of the model that returns the value of the call or the
  error it throws.
\<close>

datatype dataURL_args = Options string number number | Mime string number

record canvas =
  toDataURL :: "dataURL_args \<Rightarrow> thrown + string"

record pdf_image =
  img_data :: string
  img_format :: string
  img_x :: number
  img_y :: number
  img_w :: number
  img_h :: number

record pdf_document =
  orientation :: string
  page_unit :: string
  page_format :: string
  images :: "pdf_image list"

record text_options =
  t_x :: number
  t_y :: number
  t_w :: number
  t_h :: number
  fontSize :: number
  fontFace :: string
  color :: string
  bold :: "bool option"
  align :: "string option"

record series =
  name :: string
  vals :: "number option list"

record chart_options =
  ch_x :: number
  ch_y :: number
  ch_w :: number
  ch_h :: number
  ch_title :: "string option"

datatype slide_call = addText string text_options | addChart string "series list" chart_options

record presentation =
  layout :: string
  slide :: "slide_call list"

record platform =
  js :: runtime
  pdf_output :: "pdf_document \<Rightarrow> thrown + string"
  pptx_write :: "presentation \<Rightarrow> thrown + string"
  createObjectURL :: "string \<Rightarrow> thrown + string"
  clipboard_writeText :: "string \<Rightarrow> thrown + unit"
  encodeURIComponent :: "string \<Rightarrow> thrown + string"

section \<open>Image and document renderers\<close>

definition exportAsImage :: "canvas \<Rightarrow> string \<Rightarrow> thrown + ExportResponse" where
  "exportAsImage cv format =
     (case toDataURL cv (Options format (binary64 0.9) 2) of
        Inl e \<Rightarrow> Inl e
      | Inr dataURL \<Rightarrow>
          Inr \<lparr>success = True, downloadUrl = Some dataURL,
               filename = Some (''dashboard.'' @ format), error = None\<rparr>)"

text \<open>
  The image box of \<open>exportAsPDF\<close>, with the page size and the aspect ratio of the
  source as arguments: the result is \<open>(x, y, imgWidth, imgHeight)\<close>.
\<close>

definition image_box :: "number \<Rightarrow> number \<Rightarrow> number \<Rightarrow> number \<times> number \<times> number \<times> number" where
  "image_box pdfWidth pdfHeight aspectRatio =
     (let imgWidth = sub64 pdfWidth 20;
          imgHeight = div64 imgWidth aspectRatio;
          (imgWidth, imgHeight) =
             (if imgHeight > sub64 pdfHeight 20
              then (let imgHeight = sub64 pdfHeight 20 in (mul64 imgHeight aspectRatio, imgHeight))
              else (imgWidth, imgHeight));
          x = div64 (sub64 pdfWidth imgWidth) 2;
          y = div64 (sub64 pdfHeight imgHeight) 2
      in (x, y, imgWidth, imgHeight))"

definition pdf_image_box :: "number \<times> number \<times> number \<times> number" where
  "pdf_image_box = image_box 297 210 (div64 16 9)"

definition title_filename :: "string \<Rightarrow> string \<Rightarrow> string" where
  "title_filename title ext = toLowerCase (replace_whitespace title) @ ext"

text \<open>The document after \<open>new jsPDF('landscape', 'mm', 'a4')\<close> and \<open>pdf.addImage\<close>.\<close>

definition pdf_page :: "string \<Rightarrow> pdf_document" where
  "pdf_page imgData =
     (case pdf_image_box of (x, y, imgWidth, imgHeight) \<Rightarrow>
        \<lparr>orientation = ''landscape'', page_unit = ''mm'', page_format = ''a4'',
         images = [\<lparr>img_data = imgData, img_format = ''JPEG'', img_x = x, img_y = y,
                    img_w = imgWidth, img_h = imgHeight\<rparr>]\<rparr>)"

definition exportAsPDF :: "platform \<Rightarrow> canvas \<Rightarrow> string \<Rightarrow> thrown + ExportResponse" where
  "exportAsPDF pf cv title =
     (case toDataURL cv (Mime ''image/jpeg'' (binary64 0.9)) of
        Inl e \<Rightarrow> Inl e
      | Inr imgData \<Rightarrow>
          (case pdf_output pf (pdf_page imgData) of
             Inl e \<Rightarrow> Inl e
           | Inr pdfBlob \<Rightarrow>
               (case createObjectURL pf pdfBlob of
                  Inl e \<Rightarrow> Inl e
                | Inr url \<Rightarrow>
                    Inr \<lparr>success = True, downloadUrl = Some url,
                         filename = Some (title_filename title ''.pdf''), error = None\<rparr>)))"

section \<open>Presentation renderer\<close>

text \<open>An array read \<open>xs[i]\<close>: \<open>undefined\<close> beyond the end, no error.\<close>

definition index_or_undefined :: "'a list \<Rightarrow> nat \<Rightarrow> 'a option" where
  "index_or_undefined xs i = (if i < length xs then Some (xs ! i) else None)"

text \<open>The slide geometry \<open>(x, y, w, h)\<close> computed at the head of the loop body.\<close>

definition slide_geometry :: "component \<Rightarrow> number \<times> number \<times> number \<times> number" where
  "slide_geometry c =
     (mul64 (div64 (pos_x (c_position c)) 800) 10,
      add64 (mul64 (div64 (pos_y (c_position c)) 450) (binary64 5.6)) (binary64 1.2),
      mul64 (div64 (width (c_size c)) 800) 10,
      mul64 (div64 (height (c_size c)) 450) (binary64 5.6))"

text \<open>
  The series argument of \<open>slide.addChart\<close>:
  \<open>chartData.labels?.map((label, i) => ({name: label, values: [chartData.data[i]]})) || []\<close>.
\<close>

definition chart_series :: "dataset \<Rightarrow> series list" where
  "chart_series chartData =
     (case labels chartData of
        None \<Rightarrow> []
      | Some ls \<Rightarrow>
          map (\<lambda>(label, i). \<lparr>name = label, vals = [index_or_undefined (data chartData) i]\<rparr>)
              (zip ls [0..<length ls]))"

text \<open>
  One run of the body of \<open>dashboard.components.forEach\<close>: the calls it makes on the
  slide, or the error it throws. Reading \<open>labels\<close> of \<open>datasets[0]\<close> throws a
  \<open>TypeError\<close> when the array is empty.
\<close>

definition component_calls :: "runtime \<Rightarrow> theme \<Rightarrow> component \<Rightarrow> thrown + slide_call list" where
  "component_calls rt th c =
     (case slide_geometry c of (x, y, w, h) \<Rightarrow>
        if c_type c = ''chart'' \<and> datasets (c_data c) \<noteq> None then
          (case the (datasets (c_data c)) of
             [] \<Rightarrow> Inl (TypeError (undefined_read_message rt ''labels''))
           | chartData # _ \<Rightarrow>
               Inr [addChart ''bar'' (chart_series chartData)
                      \<lparr>ch_x = x, ch_y = y, ch_w = w, ch_h = h, ch_title = c_title c\<rparr>])
        else if c_type c = ''kpi'' then
          Inr (addText (interpolate rt (kpi_val (c_data c)) @ '' '' @ or_empty (kpi_unit (c_data c)))
                 \<lparr>t_x = x, t_y = y, t_w = w, t_h = h, fontSize = 18, fontFace = ''Arial'',
                  color = primaryColor th, bold = Some True, align = Some ''center''\<rparr>
               # (if truthy (c_title c)
                  then [addText (the (c_title c))
                          \<lparr>t_x = x, t_y = sub64 y (binary64 0.3), t_w = w, t_h = binary64 0.3,
                           fontSize = 12,
                           fontFace = ''Arial'', color = textColor th, bold = None, align = None\<rparr>]
                  else []))
        else Inr [])"

text \<open>The loop: the calls made so far are the accumulator; an error ends the loop.\<close>

fun forEach_component :: "runtime \<Rightarrow> theme \<Rightarrow> component list \<Rightarrow> slide_call list \<Rightarrow> thrown + slide_call list" where
  "forEach_component rt th [] calls = Inr calls"
| "forEach_component rt th (c # cs) calls =
     (case component_calls rt th c of
        Inl e \<Rightarrow> Inl e
      | Inr new \<Rightarrow> forEach_component rt th cs (calls @ new))"

definition title_call :: "dashboard \<Rightarrow> slide_call" where
  "title_call d =
     addText (d_title d)
       \<lparr>t_x = binary64 0.5, t_y = binary64 0.3, t_w = 9, t_h = binary64 0.8, fontSize = 24,
        fontFace = ''Arial'',
        color = primaryColor (d_theme d), bold = Some True, align = None\<rparr>"

text \<open>The slide of \<open>exportAsPowerPoint\<close> before it is written out.\<close>

definition build_slide :: "runtime \<Rightarrow> dashboard \<Rightarrow> thrown + slide_call list" where
  "build_slide rt d = forEach_component rt (d_theme d) (d_components d) [title_call d]"

definition exportAsPowerPoint :: "platform \<Rightarrow> dashboard \<Rightarrow> thrown + ExportResponse" where
  "exportAsPowerPoint pf d =
     (case build_slide (js pf) d of
        Inl e \<Rightarrow> Inl e
      | Inr calls \<Rightarrow>
          (case pptx_write pf \<lparr>layout = ''LAYOUT_16x9'', slide = calls\<rparr> of
             Inl e \<Rightarrow> Inl e
           | Inr pptxBlob \<Rightarrow>
               (case createObjectURL pf pptxBlob of
                  Inl e \<Rightarrow> Inl e
                | Inr url \<Rightarrow>
                    Inr \<lparr>success = True, downloadUrl = Some url,
                         filename = Some (title_filename (d_title d) ''.pptx''), error = None\<rparr>)))"

section \<open>Markup renderer\<close>

definition nl :: string where
  "nl = [CHR 0x0A]"

text \<open>The four percentages \<open>(left, top, width, height)\<close> of a component's block.\<close>

definition html_geometry :: "component \<Rightarrow> number \<times> number \<times> number \<times> number" where
  "html_geometry c =
     (mul64 (div64 (pos_x (c_position c)) 800) 100,
      mul64 (div64 (pos_y (c_position c)) 450) 100,
      mul64 (div64 (width (c_size c)) 800) 100,
      mul64 (div64 (height (c_size c)) 450) 100)"

text \<open>The inner element of a block: the kpi text, or the placeholder canvas.\<close>

definition component_body :: "runtime \<Rightarrow> component \<Rightarrow> string" where
  \<open>component_body rt c =
     (if c_type c = ''kpi''
      then ''<div class="kpi-value">'' @ interpolate rt (kpi_val (c_data c)) @ '' ''
             @ or_empty (kpi_unit (c_data c)) @ ''</div>''
      else ''<canvas id="chart-'' @ c_id c @ ''"></canvas>'')\<close>

text \<open>The text that the arrow function of \<open>dashboard.components.map\<close> returns.\<close>

definition component_html :: "runtime \<Rightarrow> component \<Rightarrow> string" where
  \<open>component_html rt c =
     (case html_geometry c of (l, t, w, h) \<Rightarrow>
        concat
          [nl,
           ''        <div class="component" style="'', nl,
           ''            left: '', Number_toString rt l, ''%;'', nl,
           ''            top: '', Number_toString rt t, ''%;'', nl,
           ''            width: '', Number_toString rt w, ''%;'', nl,
           ''            height: '', Number_toString rt h, ''%;'', nl,
           ''        ">'', nl,
           ''            '',
           (if truthy (c_title c)
            then ''<div class="component-title">'' @ the (c_title c) @ ''</div>'' else []), nl,
           ''            '', component_body rt c, nl,
           ''        </div>'', nl,
           ''        ''])\<close>

definition generateHTMLCode :: "runtime \<Rightarrow> dashboard \<Rightarrow> string" where
  \<open>generateHTMLCode rt d =
     concat
       [''<!DOCTYPE html>'', nl,
        ''<html lang="en">'', nl,
        ''<head>'', nl,
        ''    <meta charset="UTF-8">'', nl,
        ''    <meta name="viewport" content="width=device-width, initial-scale=1.0">'', nl,
        ''    <title>'', d_title d, ''</title>'', nl,
        ''    <script src="https://cdn.jsdelivr.net/npm/chart.js"></script>'', nl,
        ''    <style>'', nl,
        ''        body {'', nl,
        ''            font-family: '', fontFamily (d_theme d), '';'', nl,
        ''            background-color: '', backgroundColor (d_theme d), '';'', nl,
        ''            color: '', textColor (d_theme d), '';'', nl,
        ''            margin: 0;'', nl,
        ''            padding: 20px;'', nl,
        ''        }'', nl,
        ''        .dashboard {'', nl,
        ''            max-width: 1200px;'', nl,
        ''            margin: 0 auto;'', nl,
        ''            aspect-ratio: 16/9;'', nl,
        ''            position: relative;'', nl,
        ''        }'', nl,
        ''        .component {'', nl,
        ''            position: absolute;'', nl,
        ''            background: white;'', nl,
        ''            border: 1px solid #e5e7eb;'', nl,
        ''            border-radius: 8px;'', nl,
        ''            padding: 16px;'', nl,
        ''            box-shadow: 0 1px 3px rgba(0,0,0,0.1);'', nl,
        ''        }'', nl,
        ''        .kpi-value {'', nl,
        ''            font-size: 2rem;'', nl,
        ''            font-weight: bold;'', nl,
        ''            color: '', primaryColor (d_theme d), '';'', nl,
        ''        }'', nl,
        ''        .component-title {'', nl,
        ''            font-size: 1.1rem;'', nl,
        ''            font-weight: 600;'', nl,
        ''            margin-bottom: 12px;'', nl,
        ''            color: '', textColor (d_theme d), '';'', nl,
        ''        }'', nl,
        ''    </style>'', nl,
        ''</head>'', nl,
        ''<body>'', nl,
        ''    <div class="dashboard">'', nl,
        ''        <h1>'', d_title d, ''</h1>'', nl,
        ''        '', concat (map (component_html rt) (d_components d)), nl,
        ''    </div>'', nl,
        ''</body>'', nl,
        ''</html>'']\<close>

definition exportAsHTML :: "platform \<Rightarrow> dashboard \<Rightarrow> thrown + ExportResponse" where
  "exportAsHTML pf d =
     (let html = generateHTMLCode (js pf) d
      in case clipboard_writeText pf html of
           Inl e \<Rightarrow> Inl e
         | Inr _ \<Rightarrow>
             (case encodeURIComponent pf html of
                Inl e \<Rightarrow> Inl e
              | Inr encoded \<Rightarrow>
                  Inr \<lparr>success = True,
                       downloadUrl = Some (''data:text/html;charset=utf-8,'' @ encoded),
                       filename = Some ''dashboard.html'', error = None\<rparr>))"

section \<open>Export orchestrator\<close>

text \<open>The \<open>switch\<close> inside the \<open>try\<close> block.\<close>

definition dispatch :: "platform \<Rightarrow> dashboard \<Rightarrow> string \<Rightarrow> canvas \<Rightarrow> thrown + ExportResponse" where
  "dispatch pf d format cv =
     (if format = ''jpeg'' then exportAsImage cv ''jpeg''
      else if format = ''png'' then exportAsImage cv ''png''
      else if format = ''pdf'' then exportAsPDF pf cv (d_title d)
      else if format = ''pptx'' then exportAsPowerPoint pf d
      else if format = ''html'' then exportAsHTML pf d
      else Inl (Error (''Unsupported export format: '' @ format)))"

text \<open>
  The \<open>catch\<close> block: it builds the failure response from \<open>error.message\<close>; when
  that read throws, the error leaves the function.
\<close>

definition catch_block :: "runtime \<Rightarrow> thrown \<Rightarrow> thrown + ExportResponse" where
  "catch_block rt e =
     (case read_message rt e of
        Inl raised \<Rightarrow> Inl raised
      | Inr m \<Rightarrow>
          Inr \<lparr>success = False, downloadUrl = None, filename = None,
               error = Some (''Export failed: '' @ m)\<rparr>)"

text \<open>
  \<open>exportDashboard\<close>: the result is the response the promise resolves to, or the value
  it rejects with. (The start time the function records is never read.)
\<close>

definition exportDashboard :: "platform \<Rightarrow> dashboard \<Rightarrow> string \<Rightarrow> canvas \<Rightarrow> thrown + ExportResponse" where
  "exportDashboard pf d format cv =
     (case dispatch pf d format cv of
        Inr response \<Rightarrow> Inr response
      | Inl e \<Rightarrow> catch_block (js pf) e)"

section \<open>Response shapes and sample inputs\<close>

text \<open>The two shapes of a response, as the service builds them.\<close>

definition failure_response :: "string \<Rightarrow> ExportResponse" where
  "failure_response m = \<lparr>success = False, downloadUrl = None, filename = None, error = Some m\<rparr>"

definition success_response :: "string \<Rightarrow> string \<Rightarrow> ExportResponse" where
  "success_response url file = \<lparr>success = True, downloadUrl = Some url, filename = Some file, error = None\<rparr>"

text \<open>A runtime, a rendering surface and platforms for the concrete checks below.\<close>

definition sample_runtime :: runtime where
  "sample_runtime =
     \<lparr>runtime_toString = (\<lambda>_. ''NaN''),
      undefined_read_message =
        (\<lambda>p. ''Cannot read properties of undefined (reading '' @ [CHR 0x27] @ p @ [CHR 0x27] @ '')''),
      null_read_message =
        (\<lambda>p. ''Cannot read properties of null (reading '' @ [CHR 0x27] @ p @ [CHR 0x27] @ '')'')\<rparr>"

definition sample_canvas :: canvas where
  "sample_canvas = \<lparr>toDataURL = (\<lambda>_. Inr ''data:image'')\<rparr>"

definition detached_canvas :: canvas where
  "detached_canvas = \<lparr>toDataURL = (\<lambda>_. Inl (Error ''canvas is empty''))\<rparr>"

text \<open>A surface whose \<open>toDataURL\<close> runs \<open>throw null\<close>.\<close>

definition null_throwing_canvas :: canvas where
  "null_throwing_canvas = \<lparr>toDataURL = (\<lambda>_. Inl Null_value)\<rparr>"

definition sample_platform :: platform where
  "sample_platform =
     \<lparr>js = sample_runtime,
      pdf_output = (\<lambda>_. Inr ''pdf-bytes''),
      pptx_write = (\<lambda>_. Inr ''pptx-bytes''),
      createObjectURL = (\<lambda>b. Inr (''blob:'' @ b)),
      clipboard_writeText = (\<lambda>_. Inr ()),
      encodeURIComponent = (\<lambda>s. Inr s)\<rparr>"

definition clipboard_denied_platform :: platform where
  "clipboard_denied_platform =
     sample_platform\<lparr>clipboard_writeText := (\<lambda>_. Inl (Error ''Write permission denied.''))\<rparr>"

definition sample_theme :: theme where
  "sample_theme =
     \<lparr>primaryColor = ''#2563eb'', backgroundColor = ''#ffffff'', textColor = ''#111827'',
      fontFamily = ''Arial''\<rparr>"

definition revenue_kpi :: component where
  "revenue_kpi =
     \<lparr>c_id = ''kpi-1'', c_type = ''kpi'', c_title = Some ''Revenue'',
      c_position = \<lparr>pos_x = 0, pos_y = 0\<rparr>, c_size = \<lparr>width = 800, height = 450\<rparr>,
      c_data = \<lparr>datasets = None, kpi_val = Some (Num 1000), kpi_unit = Some ''USD''\<rparr>\<rparr>"

definition bare_kpi :: component where
  "bare_kpi =
     \<lparr>c_id = ''kpi-2'', c_type = ''kpi'', c_title = None,
      c_position = \<lparr>pos_x = 80, pos_y = 45\<rparr>, c_size = \<lparr>width = 160, height = 90\<rparr>,
      c_data = \<lparr>datasets = None, kpi_val = Some (Num 42), kpi_unit = None\<rparr>\<rparr>"

definition ab_chart :: component where
  "ab_chart =
     \<lparr>c_id = ''chart-1'', c_type = ''chart'', c_title = Some ''Totals'',
      c_position = \<lparr>pos_x = 400, pos_y = 225\<rparr>, c_size = \<lparr>width = 400, height = 225\<rparr>,
      c_data = \<lparr>datasets = Some [\<lparr>labels = Some [''A'', ''B''], data = [1, 2]\<rparr>],
                kpi_val = None, kpi_unit = None\<rparr>\<rparr>"

definition unlabelled_chart :: component where
  "unlabelled_chart =
     ab_chart\<lparr>c_data := \<lparr>datasets = Some [\<lparr>labels = None, data = [1, 2]\<rparr>],
                         kpi_val = None, kpi_unit = None\<rparr>\<rparr>"

definition chart_without_datasets :: component where
  "chart_without_datasets =
     ab_chart\<lparr>c_data := \<lparr>datasets = None, kpi_val = None, kpi_unit = None\<rparr>\<rparr>"

definition chart_with_no_dataset :: component where
  "chart_with_no_dataset =
     ab_chart\<lparr>c_data := \<lparr>datasets = Some [], kpi_val = None, kpi_unit = None\<rparr>\<rparr>"

text \<open>A component inside the canvas that starts at \<open>x = 7\<close> and is \<open>793\<close> wide.\<close>

definition offset_chart :: component where
  "offset_chart =
     ab_chart\<lparr>c_position := \<lparr>pos_x = 7, pos_y = 0\<rparr>, c_size := \<lparr>width = 793, height = 450\<rparr>\<rparr>"

definition table_component :: component where
  "table_component = bare_kpi\<lparr>c_id := ''table-1'', c_type := ''table''\<rparr>"

definition sample_dashboard :: "component list \<Rightarrow> dashboard" where
  "sample_dashboard cs = \<lparr>d_title = ''Sales Overview'', d_theme = sample_theme, d_components = cs\<rparr>"

section \<open>The file name as the specification words it\<close>

text \<open>
  The specification derives the file name from the title "lower-cased, whitespace run
  replaced by a single underscore". Read from its words: going through the title, the
  first whitespace character of a run becomes an underscore, every further whitespace
  character of the same run is dropped, and every other character is kept.
\<close>

fun spec_collapse_runs :: "bool \<Rightarrow> string \<Rightarrow> string" where
  "spec_collapse_runs in_run [] = []"
| "spec_collapse_runs in_run (c # cs) =
     (if is_white_space c
      then (if in_run then spec_collapse_runs True cs else CHR ''_'' # spec_collapse_runs True cs)
      else c # spec_collapse_runs False cs)"

definition spec_filename :: "string \<Rightarrow> string \<Rightarrow> string" where
  "spec_filename title ext = map lower_char (spec_collapse_runs False title) @ ext"

section \<open>The bar series as the specification words it\<close>

text \<open>
  The specification builds the series of a chart "from \<open>labels[i] \<rightarrow> values:[data[i]]\<close>
  pairs (empty sequence if ... labels are absent)": one entry per index of the labels,
  named by the label at the index and holding the datum at the same index.
\<close>

definition spec_series :: "dataset \<Rightarrow> series list" where
  "spec_series chartData =
     (case labels chartData of
        None \<Rightarrow> []
      | Some ls \<Rightarrow>
          map (\<lambda>i. \<lparr>name = ls ! i,
                     vals = [if i < length (data chartData) then Some (data chartData ! i) else None]\<rparr>)
              [0..<length ls])"

section \<open>Texts looked for in the generated document\<close>

text \<open>
  The four style lines of a block with the percentages \<open>l\<close>, \<open>t\<close>, \<open>w\<close> and \<open>h\<close>,
  and the element of a kpi with the text \<open>s\<close>, as they are to be found in the document.
\<close>

definition style_lines :: "runtime \<Rightarrow> number \<Rightarrow> number \<Rightarrow> number \<Rightarrow> number \<Rightarrow> string" where
  \<open>style_lines rt l t w h =
     concat
       [''style="'', nl,
        ''            left: '', Number_toString rt l, ''%;'', nl,
        ''            top: '', Number_toString rt t, ''%;'', nl,
        ''            width: '', Number_toString rt w, ''%;'', nl,
        ''            height: '', Number_toString rt h, ''%;'', nl,
        ''        ">'']\<close>


section \<open>Properties of binary64 rounding\<close>

lemmas binary64_eval = binary64_def ulp_def exponent_def round_half_even_def Let_def
  exponent_up.simps exponent_down.simps div64_def mul64_def add64_def sub64_def


lemma exponent_up_le: "1 \<le> q \<Longrightarrow> 2 powi exponent_up q \<le> q"
proof (induction q rule: exponent_up.induct)
  case (1 q)
  show ?case
  proof (cases "q < 2")
    case True
    with "1.prems" show ?thesis
      by (simp add: exponent_up.simps)
  next
    case False
    then have "1 \<le> q / 2"
      by simp
    with "1.IH" False have "2 powi exponent_up (q / 2) \<le> q / 2"
      by simp
    moreover have "exponent_up q = exponent_up (q / 2) + 1"
      using False by (subst exponent_up.simps) simp
    ultimately show ?thesis
      by (simp add: power_int_add)
  qed
qed

lemma exponent_down_le: "0 < q \<Longrightarrow> q < 1 \<Longrightarrow> 2 powi exponent_down q \<le> q"
proof (induction q rule: exponent_down.induct)
  case (1 q)
  have step: "exponent_down q = exponent_down (q * 2) - 1"
    using "1.prems" by (subst exponent_down.simps) simp
  show ?case
  proof (cases "q * 2 < 1")
    case True
    with "1.IH" "1.prems" have "2 powi exponent_down (q * 2) \<le> q * 2"
      by simp
    then show ?thesis
      by (simp add: step power_int_diff)
  next
    case False
    then have "exponent_down (q * 2) = 0"
      by (subst exponent_down.simps) simp
    with False show ?thesis
      by (simp add: step)
  qed
qed

lemma ulp_pos: "0 < ulp q"
  by (simp add: ulp_def)

lemma ulp_bound:
  assumes "q \<noteq> 0"
  shows "ulp q \<le> \<bar>q\<bar> / 2 ^ 52 + 1 / 2 ^ 1074"
proof (cases "exponent q = - 1022")
  case True
  then have "ulp q = 1 / 2 ^ 1074"
    by (simp add: ulp_def power_int_minus_divide)
  then show ?thesis
    by simp
next
  case False
  let ?e = "if 1 \<le> \<bar>q\<bar> then exponent_up \<bar>q\<bar> else exponent_down \<bar>q\<bar>"
  from False have e: "exponent q = ?e"
    by (auto simp: exponent_def max_def split: if_splits)
  have "2 powi ?e \<le> \<bar>q\<bar>"
  proof (cases "1 \<le> \<bar>q\<bar>")
    case True
    then show ?thesis
      using exponent_up_le [of "\<bar>q\<bar>"] by simp
  next
    case False
    with assms show ?thesis
      using exponent_down_le [of "\<bar>q\<bar>"] by simp
  qed
  moreover have "ulp q = 2 powi ?e / 2 ^ 52"
    by (simp only: ulp_def e) (simp add: power_int_diff)
  ultimately have "ulp q \<le> \<bar>q\<bar> / 2 ^ 52"
    by (simp add: divide_right_mono)
  then show ?thesis
    by simp
qed

lemma round_half_even_error: "\<bar>of_int (round_half_even m) - m\<bar> \<le> 1 / 2"
  unfolding round_half_even_def Let_def by (auto; linarith)

lemma binary64_zero: "binary64 0 = 0"
  by (simp add: binary64_def round_half_even_def)

text \<open>Rounding moves a number by at most half the spacing of its binade.\<close>

lemma binary64_error: "\<bar>binary64 q - q\<bar> \<le> \<bar>q\<bar> / 2 ^ 53 + 1 / 2 ^ 1075"
proof (cases "q = 0")
  case True
  then show ?thesis
    by (simp add: binary64_zero)
next
  case False
  have "binary64 q - q = (of_int (round_half_even (q / ulp q)) - q / ulp q) * ulp q"
    using ulp_pos [of q] by (simp add: binary64_def algebra_simps)
  then have "\<bar>binary64 q - q\<bar> = \<bar>of_int (round_half_even (q / ulp q)) - q / ulp q\<bar> * ulp q"
    using ulp_pos [of q] by (simp add: abs_mult)
  also have "\<dots> \<le> (1 / 2) * ulp q"
    using round_half_even_error ulp_pos [of q] by (intro mult_right_mono) simp_all
  also have "\<dots> \<le> (1 / 2) * (\<bar>q\<bar> / 2 ^ 52 + 1 / 2 ^ 1074)"
    using ulp_bound [OF False] by simp
  also have "\<dots> = \<bar>q\<bar> / 2 ^ 53 + 1 / 2 ^ 1075"
    by simp
  finally show ?thesis .
qed

lemma binary64_nonneg:
  assumes "0 \<le> q"
  shows "0 \<le> binary64 q"
proof -
  have "0 \<le> q / ulp q"
    using assms ulp_pos [of q] by simp
  then have "0 \<le> \<lfloor>q / ulp q\<rfloor>"
    by simp
  then have "0 \<le> round_half_even (q / ulp q)"
    by (auto simp: round_half_even_def Let_def)
  then show ?thesis
    using ulp_pos [of q] by (simp add: binary64_def)
qed

lemma binary64_upper:
  assumes "0 \<le> q"
  shows "binary64 q \<le> q + (q + 1) / 9007199254740992"
proof -
  have "(1::real) / 2 ^ 1075 \<le> 1 / 2 ^ 53"
    by (intro divide_left_mono power_increasing) simp_all
  moreover have "\<bar>binary64 q - q\<bar> \<le> q / 2 ^ 53 + 1 / 2 ^ 1075"
    using binary64_error [of q] assms by simp
  ultimately have "binary64 q - q \<le> q / 2 ^ 53 + 1 / 2 ^ 53"
    by linarith
  then show ?thesis
    by (simp add: add_divide_distrib)
qed

text \<open>A percentage \<open>(v / k) * 100\<close> of the source, against its exact value.\<close>

lemma percent_nonneg: "0 \<le> v \<Longrightarrow> 0 < k \<Longrightarrow> 0 \<le> mul64 (div64 v k) 100"
  by (simp add: mul64_def div64_def binary64_nonneg)

lemma percent_upper:
  assumes "0 \<le> v" "0 < k"
  shows "mul64 (div64 v k) 100 \<le> 100 * (v / k) + (201 * (v / k) + 102) / 9007199254740992"
proof -
  define p where "p = v / k"
  define a where "a = div64 v k"
  have p: "0 \<le> p"
    using assms by (simp add: p_def)
  have a0: "0 \<le> a"
    using p by (simp add: a_def div64_def p_def binary64_nonneg)
  have a: "a \<le> p + (p + 1) / 9007199254740992"
    using binary64_upper [OF p] by (simp add: a_def div64_def p_def)
  have "mul64 a 100 \<le> a * 100 + (a * 100 + 1) / 9007199254740992"
    unfolding mul64_def by (rule binary64_upper) (use a0 in simp)
  with a p have "mul64 a 100 \<le> 100 * p + (201 * p + 102) / 9007199254740992"
    by argo
  then show ?thesis
    by (simp add: a_def p_def)
qed

section \<open>The generated document and its blocks\<close>

lemma elem_sublist_concat: "x \<in> set xss \<Longrightarrow> sublist x (concat xss)"
proof -
  assume "x \<in> set xss"
  then obtain ys zs where "xss = ys @ x # zs"
    by (auto dest: split_list)
  then have "concat xss = concat ys @ x @ concat zs"
    by simp
  then show ?thesis
    by (auto simp: sublist_def)
qed

lemma generateHTMLCode_blocks:
  "sublist (concat (map (component_html rt) (d_components d))) (generateHTMLCode rt d)"
  unfolding generateHTMLCode_def by (rule elem_sublist_concat) simp

lemma component_html_style:
  assumes "html_geometry c = (l, t, w, h)"
  shows "sublist (style_lines rt l t w h) (component_html rt c)"
proof -
  have \<open>component_html rt c
          = (nl @ ''        <div class="component" '') @ style_lines rt l t w h
            @ concat [nl, ''            '',
                (if truthy (c_title c)
                 then ''<div class="component-title">'' @ the (c_title c) @ ''</div>'' else []), nl,
                ''            '', component_body rt c, nl,
                ''        </div>'', nl,
                ''        '']\<close>
    using assms by (simp add: component_html_def style_lines_def)
  then show ?thesis
    by (simp only: sublist_appendI)
qed


lemma generateHTMLCode_component:
  assumes "c \<in> set (d_components d)"
  shows "sublist (component_html rt c) (generateHTMLCode rt d)"
proof -
  have "component_html rt c \<in> set (map (component_html rt) (d_components d))"
    using assms by simp
  then have "sublist (component_html rt c) (concat (map (component_html rt) (d_components d)))"
    by (rule elem_sublist_concat)
  then show ?thesis
    using generateHTMLCode_blocks by (rule sublist_order.order_trans)
qed

text \<open>The document that \<open>exportAsHTML\<close> copies and returns is the generated one.\<close>

lemma exportDashboard_html_document:
  assumes "exportDashboard pf d ''html'' cv = Inr r" "success r"
  shows "\<exists>encoded. clipboard_writeText pf (generateHTMLCode (js pf) d) = Inr ()
           \<and> encodeURIComponent pf (generateHTMLCode (js pf) d) = Inr encoded
           \<and> r = success_response (''data:text/html;charset=utf-8,'' @ encoded) ''dashboard.html''"
  using assms
  by (auto simp: exportDashboard_def catch_block_def dispatch_def exportAsHTML_def Let_def success_response_def
      split: sum.splits)

lemma percent_sum:
  assumes "0 \<le> v" "0 \<le> v'" "v + v' \<le> k" "0 < k"
  shows "mul64 (div64 v k) 100 + mul64 (div64 v' k) 100 \<le> 100 + 1 / 10 ^ 13"
proof -
  have sum: "v / k + v' / k \<le> 1"
    using assms by (simp add: add_divide_distrib [symmetric])
  have nn: "0 \<le> v / k" "0 \<le> v' / k"
    using assms by simp_all
  have tol: "(1::real) / 10 ^ 13 = 1 / 10000000000000"
    by simp
  from percent_upper [OF assms(1,4)] percent_upper [OF assms(2,4)] sum nn show ?thesis
    unfolding tol by argo
qed

section \<open>Geometry of the markup renderer\<close>

text \<open>
  Claim C2, as amended. The percentages of a component's block are \<open>(x / 800) * 100\<close>,
  \<open>(y / 450) * 100\<close>, \<open>(width / 800) * 100\<close> and \<open>(height / 450) * 100\<close>, each
  operation rounded to binary64, and they are the numbers printed in the style lines of
  the component's block in the generated document, which is the document a successful
  html export encodes and returns. For a component inside the 800 by 450 canvas, left
  and top are not negative, and left plus width (and top plus height) is at most
  \<open>100 + 10\<^sup>-\<^sup>1\<^sup>3\<close>: it is 100 up to the rounding of the two divisions and the two
  multiplications. The component that fills the canvas has the percentages 0, 0, 100
  and 100.
\<close>

theorem html_geometry_within_canvas:
  assumes "0 \<le> pos_x (c_position c)" "0 \<le> pos_y (c_position c)"
    and "0 \<le> width (c_size c)" "0 \<le> height (c_size c)"
    and "pos_x (c_position c) + width (c_size c) \<le> 800"
    and "pos_y (c_position c) + height (c_size c) \<le> 450"
    and "c \<in> set (d_components d)"
  shows "case html_geometry c of (l, t, w, h) \<Rightarrow>
           l = mul64 (div64 (pos_x (c_position c)) 800) 100
           \<and> t = mul64 (div64 (pos_y (c_position c)) 450) 100
           \<and> w = mul64 (div64 (width (c_size c)) 800) 100
           \<and> h = mul64 (div64 (height (c_size c)) 450) 100
           \<and> 0 \<le> l \<and> 0 \<le> t
           \<and> l + w \<le> 100 + 1 / 10 ^ 13 \<and> t + h \<le> 100 + 1 / 10 ^ 13
           \<and> (pos_x (c_position c) = 0 \<and> pos_y (c_position c) = 0
                \<and> width (c_size c) = 800 \<and> height (c_size c) = 450
              \<longrightarrow> (l, t, w, h) = (0, 0, 100, 100))
           \<and> sublist (style_lines rt l t w h) (generateHTMLCode rt d)
           \<and> (exportDashboard pf d ''html'' cv = Inr r \<and> success r \<longrightarrow>
                (\<exists>encoded. encodeURIComponent pf (generateHTMLCode (js pf) d) = Inr encoded
                   \<and> r = success_response (''data:text/html;charset=utf-8,'' @ encoded)
                         ''dashboard.html''))"
proof -
  obtain l t w h where g: "html_geometry c = (l, t, w, h)"
    by (cases "html_geometry c") auto
  then have eqs: "l = mul64 (div64 (pos_x (c_position c)) 800) 100"
    "t = mul64 (div64 (pos_y (c_position c)) 450) 100"
    "w = mul64 (div64 (width (c_size c)) 800) 100"
    "h = mul64 (div64 (height (c_size c)) 450) 100"
    by (simp_all add: html_geometry_def)
  have l0: "0 \<le> l" and t0: "0 \<le> t"
    using assms(1,2) by (simp_all add: eqs percent_nonneg)
  have lw: "l + w \<le> 100 + 1 / 10 ^ 13"
    unfolding eqs using assms(1,3,5) by (intro percent_sum) simp_all
  have th: "t + h \<le> 100 + 1 / 10 ^ 13"
    unfolding eqs using assms(2,4,6) by (intro percent_sum) simp_all
  have full: "pos_x (c_position c) = 0 \<and> pos_y (c_position c) = 0
                \<and> width (c_size c) = 800 \<and> height (c_size c) = 450
              \<longrightarrow> (l, t, w, h) = (0, 0, 100, 100)"
    by (simp add: eqs binary64_eval)
  have "sublist (style_lines rt l t w h) (component_html rt c)"
    using g by (rule component_html_style)
  then have doc: "sublist (style_lines rt l t w h) (generateHTMLCode rt d)"
    using generateHTMLCode_component [OF assms(7)] by (rule sublist_order.order_trans)
  have export: "exportDashboard pf d ''html'' cv = Inr r \<and> success r \<longrightarrow>
                (\<exists>encoded. encodeURIComponent pf (generateHTMLCode (js pf) d) = Inr encoded
                   \<and> r = success_response (''data:text/html;charset=utf-8,'' @ encoded)
                         ''dashboard.html'')"
    using exportDashboard_html_document by blast
  from eqs l0 t0 lw th full doc export show ?thesis
    by (simp only: g prod.case)
qed

lemma Number_toString_percent:
  "Number_toString rt 0 = ''0''" "Number_toString rt 100 = ''100''"
  by (simp_all add: Number_toString_def int_toString_def nat_toString.simps digit_char_def
      char_of_eq_iff)

theorem html_geometry_within_canvas_witness:
  \<open>html_geometry revenue_kpi = (0, 0, 100, 100)
   \<and> style_lines sample_runtime 0 0 100 100
       = concat [''style="'', nl,
                 ''            left: 0%;'', nl,
                 ''            top: 0%;'', nl,
                 ''            width: 100%;'', nl,
                 ''            height: 100%;'', nl,
                 ''        ">'']
   \<and> sublist (style_lines sample_runtime 0 0 100 100)
        (generateHTMLCode sample_runtime (sample_dashboard [revenue_kpi]))\<close>
proof -
  have place: "pos_x (c_position revenue_kpi) = 0" "pos_y (c_position revenue_kpi) = 0"
    "width (c_size revenue_kpi) = 800" "height (c_size revenue_kpi) = 450"
    by (simp_all add: revenue_kpi_def)
  have inside: "revenue_kpi \<in> set (d_components (sample_dashboard [revenue_kpi]))"
    by (simp add: sample_dashboard_def)
  have canvas: "0 \<le> pos_x (c_position revenue_kpi)" "0 \<le> pos_y (c_position revenue_kpi)"
    "0 \<le> width (c_size revenue_kpi)" "0 \<le> height (c_size revenue_kpi)"
    "pos_x (c_position revenue_kpi) + width (c_size revenue_kpi) \<le> 800"
    "pos_y (c_position revenue_kpi) + height (c_size revenue_kpi) \<le> 450"
    by (simp_all add: place)
  obtain l t w h where g: "html_geometry revenue_kpi = (l, t, w, h)"
    by (cases "html_geometry revenue_kpi") auto
  from html_geometry_within_canvas [OF canvas inside, where rt = sample_runtime]
  have "(l, t, w, h) = (0, 0, 100, 100)"
    and "sublist (style_lines sample_runtime l t w h)
           (generateHTMLCode sample_runtime (sample_dashboard [revenue_kpi]))"
    unfolding g prod.case using place by blast+
  then have 1: "html_geometry revenue_kpi = (0, 0, 100, 100)"
    and 2: "sublist (style_lines sample_runtime 0 0 100 100)
             (generateHTMLCode sample_runtime (sample_dashboard [revenue_kpi]))"
    by (simp_all add: g)
  have 3: \<open>style_lines sample_runtime 0 0 100 100
       = concat [''style="'', nl,
                 ''            left: 0%;'', nl,
                 ''            top: 0%;'', nl,
                 ''            width: 100%;'', nl,
                 ''            height: 100%;'', nl,
                 ''        ">'']\<close>
    by (simp add: style_lines_def Number_toString_percent)
  from 1 3 2 show ?thesis
    by (intro conjI)
qed

text \<open>
  Claim C2 as stated fails: the component at \<open>x = 7\<close> of width \<open>793\<close> lies inside the
  canvas, its left is \<open>0.875 + 2\<^sup>-\<^sup>5\<^sup>3\<close> and its width is \<open>99.125\<close>, and their sum is
  above 100.
\<close>

theorem html_geometry_exceeds_counterexample:
  "0 \<le> pos_x (c_position offset_chart) \<and> 0 \<le> pos_y (c_position offset_chart)
   \<and> pos_x (c_position offset_chart) + width (c_size offset_chart) \<le> 800
   \<and> pos_y (c_position offset_chart) + height (c_size offset_chart) \<le> 450
   \<and> fst (html_geometry offset_chart) = 7 / 8 + 1 / 2 ^ 53
   \<and> fst (snd (snd (html_geometry offset_chart))) = 99.125
   \<and> fst (html_geometry offset_chart) + fst (snd (snd (html_geometry offset_chart))) > 100"
  by (simp add: offset_chart_def html_geometry_def binary64_eval)

section \<open>Properties of the orchestrator\<close>

lemma exportDashboard_Inr:
  "dispatch pf d format cv = Inr r \<Longrightarrow> exportDashboard pf d format cv = Inr r"
  by (simp add: exportDashboard_def)

lemma exportDashboard_caught:
  "dispatch pf d format cv = Inl e \<Longrightarrow> read_message (js pf) e = Inr m \<Longrightarrow>
   exportDashboard pf d format cv = Inr (failure_response (''Export failed: '' @ m))"
  by (simp add: exportDashboard_def catch_block_def failure_response_def)

lemma exportDashboard_raised:
  "dispatch pf d format cv = Inl e \<Longrightarrow> read_message (js pf) e = Inl raised \<Longrightarrow>
   exportDashboard pf d format cv = Inl raised"
  by (simp add: exportDashboard_def catch_block_def)

lemma dispatch_unsupported:
  "format \<notin> {''jpeg'', ''png'', ''pdf'', ''pptx'', ''html''} \<Longrightarrow>
   dispatch pf d format cv = Inl (Error (''Unsupported export format: '' @ format))"
  by (simp add: dispatch_def)

text \<open>An unsupported format gives the failure response that names the format.\<close>

lemma exportDashboard_unsupported:
  assumes "format \<notin> {''jpeg'', ''png'', ''pdf'', ''pptx'', ''html''}"
  shows "exportDashboard pf d format cv
           = Inr (failure_response (''Export failed: '' @ ''Unsupported export format: '' @ format))"
  using exportDashboard_caught [OF dispatch_unsupported [OF assms]] by simp

text \<open>Every renderer that returns, returns a success response with both fields set.\<close>

lemma exportAsImage_shape:
  "exportAsImage cv format = Inr r \<Longrightarrow> \<exists>url file. r = success_response url file"
  by (auto simp: exportAsImage_def success_response_def split: sum.splits)

lemma exportAsPDF_shape:
  "exportAsPDF pf cv title = Inr r \<Longrightarrow> \<exists>url file. r = success_response url file"
  by (auto simp: exportAsPDF_def success_response_def split: sum.splits prod.splits)

lemma exportAsPowerPoint_shape:
  "exportAsPowerPoint pf d = Inr r \<Longrightarrow> \<exists>url file. r = success_response url file"
  by (auto simp: exportAsPowerPoint_def success_response_def split: sum.splits)

lemma exportAsHTML_shape:
  "exportAsHTML pf d = Inr r \<Longrightarrow> \<exists>url file. r = success_response url file"
  by (auto simp: exportAsHTML_def Let_def success_response_def split: sum.splits)

lemma dispatch_shape:
  "dispatch pf d format cv = Inr r \<Longrightarrow> \<exists>url file. r = success_response url file"
  unfolding dispatch_def
  by (auto split: if_splits
      dest: exportAsImage_shape exportAsPDF_shape exportAsPowerPoint_shape exportAsHTML_shape)

text \<open>
  When the export returns, it returns one of the two response shapes; it fails to return
  exactly when a renderer threw \<open>null\<close> or \<open>undefined\<close>.
\<close>

lemma exportDashboard_shape:
  assumes "exportDashboard pf d format cv = Inr r"
  shows "(\<exists>url file. r = success_response url file)
       \<or> (\<exists>m. r = failure_response (''Export failed: '' @ m))"
proof (cases "dispatch pf d format cv")
  case (Inr r')
  with assms show ?thesis
    using dispatch_shape [OF Inr] by (simp add: exportDashboard_def)
next
  case (Inl e)
  with assms show ?thesis
    by (auto simp: exportDashboard_def catch_block_def failure_response_def split: sum.splits)
qed

lemma exportDashboard_raises_iff:
  "(\<exists>raised. exportDashboard pf d format cv = Inl raised)
     \<longleftrightarrow> dispatch pf d format cv = Inl Null_value \<or> dispatch pf d format cv = Inl Undefined_value"
proof (cases "dispatch pf d format cv")
  case (Inr r)
  then show ?thesis
    by (simp add: exportDashboard_def)
next
  case (Inl e)
  then show ?thesis
    by (cases e) (simp_all add: exportDashboard_def catch_block_def)
qed

text \<open>
  Claim C1. The claim says that the export never raises. The \<open>catch\<close> block reads
  \<open>error.message\<close> of whatever was thrown: when a rendering surface throws \<open>null\<close>
  (or \<open>undefined\<close>), that read throws a \<open>TypeError\<close> inside the \<open>catch\<close> block, and
  the export raises it to its caller instead of returning a failure response. A thrown
  value without a message gives the text \<open>Export failed: undefined\<close>.
\<close>

theorem exportDashboard_raises_on_thrown_null:
  "exportDashboard sample_platform (sample_dashboard []) ''png'' null_throwing_canvas
     = Inl (TypeError ''Cannot read properties of null (reading 'message')'')
   \<and> exportDashboard sample_platform (sample_dashboard []) ''pdf''
        \<lparr>toDataURL = (\<lambda>_. Inl Undefined_value)\<rparr>
     = Inl (TypeError ''Cannot read properties of undefined (reading 'message')'')
   \<and> exportDashboard sample_platform (sample_dashboard []) ''jpeg''
        \<lparr>toDataURL = (\<lambda>_. Inl Other_value)\<rparr>
     = Inr (failure_response ''Export failed: undefined'')"
  by (simp add: exportDashboard_def catch_block_def dispatch_def exportAsImage_def exportAsPDF_def
      null_throwing_canvas_def sample_platform_def sample_runtime_def failure_response_def)

section \<open>Properties of the document renderer\<close>

lemma exportDashboard_pdf_page:
  assumes "exportDashboard pf d ''pdf'' cv = Inr r" "success r"
  shows "\<exists>imgData blob url.
           toDataURL cv (Mime ''image/jpeg'' (binary64 0.9)) = Inr imgData
           \<and> pdf_output pf (pdf_page imgData) = Inr blob
           \<and> createObjectURL pf blob = Inr url
           \<and> r = success_response url (title_filename (d_title d) ''.pdf'')"
  using assms
  by (auto simp: exportDashboard_def catch_block_def dispatch_def exportAsPDF_def success_response_def
      split: sum.splits)

lemma pdf_numbers:
  "div64 16 9 = 2001599834386887 / 1125899906842624"
  "sub64 297 20 = 277" "sub64 210 20 = 190"
  "div64 277 (2001599834386887 / 1125899906842624) = 2493 / 16"
  "sub64 297 277 = 20" "div64 20 2 = 10"
  "sub64 210 (2493 / 16) = 867 / 16" "div64 (867 / 16) 2 = 867 / 32"
  "div64 277 (2493 / 16) = 2001599834386887 / 1125899906842624"
  by (simp_all add: binary64_eval)

lemma pdf_image_box_value: "pdf_image_box = (10, 27.09375, 277, 155.8125)"
  by (simp add: pdf_image_box_def image_box_def Let_def pdf_numbers)

text \<open>
  Claim C4. The image box of the document renderer is \<open>277\<close> wide and \<open>155.8125\<close>
  high at \<open>(10, 27.09375)\<close>: the available width \<open>297 - 20\<close> with the height derived
  from it, which does not exceed the available height \<open>210 - 20\<close>, so the box is not
  shrunk. Its width over its height is \<open>16/9\<close>, exactly and as the quotient the
  program computes; it lies inside the 10-unit margins of the 297 by 210 page and it is
  centered on the page. It is the box of the one image of the page, and a pdf export
  that succeeds has handed that page to the document library.
\<close>

theorem pdf_image_box_fits_centered:
  "(case pdf_image_box of (x, y, w, h) \<Rightarrow>
      w / h = 16 / 9 \<and> div64 w h = div64 16 9
      \<and> x + w \<le> 287 \<and> y + h \<le> 200 \<and> 10 \<le> x \<and> 10 \<le> y
      \<and> x = (297 - w) / 2 \<and> y = (210 - h) / 2
      \<and> w = sub64 297 20 \<and> h = div64 w (div64 16 9) \<and> \<not> h > sub64 210 20
      \<and> (x, y, w, h) = (10, 27.09375, 277, 155.8125)
      \<and> pdf_page imgData
          = \<lparr>orientation = ''landscape'', page_unit = ''mm'', page_format = ''a4'',
             images = [\<lparr>img_data = imgData, img_format = ''JPEG'', img_x = x, img_y = y,
                        img_w = w, img_h = h\<rparr>]\<rparr>)
   \<and> (exportDashboard pf d ''pdf'' cv = Inr r \<and> success r \<longrightarrow>
        (\<exists>imgData blob url.
           toDataURL cv (Mime ''image/jpeg'' (binary64 0.9)) = Inr imgData
           \<and> pdf_output pf (pdf_page imgData) = Inr blob
           \<and> createObjectURL pf blob = Inr url
           \<and> r = success_response url (title_filename (d_title d) ''.pdf'')))"
proof -
  have box: "case pdf_image_box of (x, y, w, h) \<Rightarrow>
      w / h = 16 / 9 \<and> div64 w h = div64 16 9
      \<and> x + w \<le> 287 \<and> y + h \<le> 200 \<and> 10 \<le> x \<and> 10 \<le> y
      \<and> x = (297 - w) / 2 \<and> y = (210 - h) / 2
      \<and> w = sub64 297 20 \<and> h = div64 w (div64 16 9) \<and> \<not> h > sub64 210 20
      \<and> (x, y, w, h) = (10, 27.09375, 277, 155.8125)
      \<and> pdf_page imgData
          = \<lparr>orientation = ''landscape'', page_unit = ''mm'', page_format = ''a4'',
             images = [\<lparr>img_data = imgData, img_format = ''JPEG'', img_x = x, img_y = y,
                        img_w = w, img_h = h\<rparr>]\<rparr>"
    by (simp add: pdf_page_def pdf_image_box_value pdf_numbers)
  from box exportDashboard_pdf_page show ?thesis
    by blast
qed

theorem pdf_image_box_fits_centered_witness:
  "exportDashboard sample_platform (sample_dashboard []) ''pdf'' sample_canvas
     = Inr (success_response ''blob:pdf-bytes'' ''sales_overview.pdf'')
   \<and> (\<exists>imgData blob url.
         toDataURL sample_canvas (Mime ''image/jpeg'' (binary64 0.9)) = Inr imgData
         \<and> pdf_output sample_platform (pdf_page imgData) = Inr blob
         \<and> createObjectURL sample_platform blob = Inr url
         \<and> images (pdf_page imgData)
             = [\<lparr>img_data = imgData, img_format = ''JPEG'', img_x = 10, img_y = 27.09375,
                 img_w = 277, img_h = 155.8125\<rparr>])"
proof -
  have run: "exportDashboard sample_platform (sample_dashboard []) ''pdf'' sample_canvas
     = Inr (success_response ''blob:pdf-bytes'' ''sales_overview.pdf'')"
    by (simp add: exportDashboard_def catch_block_def dispatch_def exportAsPDF_def sample_platform_def
        sample_canvas_def sample_dashboard_def success_response_def title_filename_def
        toLowerCase_def lower_char_def is_white_space_def char_of_eq_iff)
  have ok: "success (success_response ''blob:pdf-bytes'' ''sales_overview.pdf'')"
    by (simp add: success_response_def)
  have page: "images (pdf_page imgData)
             = [\<lparr>img_data = imgData, img_format = ''JPEG'', img_x = 10, img_y = 27.09375,
                 img_w = 277, img_h = 155.8125\<rparr>]" for imgData
    by (simp add: pdf_page_def pdf_image_box_value)
  from pdf_image_box_fits_centered
    [of _ sample_platform "sample_dashboard []" sample_canvas
      "success_response ''blob:pdf-bytes'' ''sales_overview.pdf''"] run ok
  have "\<exists>imgData blob url.
         toDataURL sample_canvas (Mime ''image/jpeg'' (binary64 0.9)) = Inr imgData
         \<and> pdf_output sample_platform (pdf_page imgData) = Inr blob
         \<and> createObjectURL sample_platform blob = Inr url"
    by blast
  with run page show ?thesis
    by blast
qed

section \<open>File names\<close>

lemma spec_collapse_in_run:
  "spec_collapse_runs True s = replace_whitespace (dropWhile is_white_space s)"
  and spec_collapse_fresh: "spec_collapse_runs False s = replace_whitespace s"
  by (induction s) auto

lemma title_filename_spec: "title_filename title ext = spec_filename title ext"
  by (simp add: title_filename_def spec_filename_def toLowerCase_def spec_collapse_fresh)

text \<open>No whitespace is left, a whole run gives one underscore, other text is kept.\<close>

lemma replace_whitespace_none:
  "c \<in> set (replace_whitespace s) \<Longrightarrow> \<not> is_white_space c"
  by (induction s rule: replace_whitespace.induct) (auto simp: is_white_space_def split: if_splits)

lemma replace_whitespace_run:
  assumes "ws \<noteq> []" "\<forall>c\<in>set ws. is_white_space c" "rest = [] \<or> \<not> is_white_space (hd rest)"
  shows "replace_whitespace (ws @ rest) = CHR ''_'' # replace_whitespace rest"
proof -
  obtain c ws' where ws: "ws = c # ws'"
    using assms(1) by (cases ws) auto
  have "dropWhile is_white_space (ws' @ rest) = dropWhile is_white_space rest"
    using assms(2) ws by simp
  also have "\<dots> = rest"
    using assms(3) by (cases rest) auto
  finally show ?thesis
    using ws assms(2) by simp
qed

lemma replace_whitespace_word:
  "\<forall>c\<in>set w. \<not> is_white_space c \<Longrightarrow> replace_whitespace (w @ rest) = w @ replace_whitespace rest"
  by (induction w) auto

text \<open>
  Claim C3. Whenever an export succeeds, its file name is: for pdf and pptx, the title
  with every run of whitespace replaced by a single underscore, lower-cased, followed by
  \<open>.pdf\<close> or \<open>.pptx\<close>; for jpeg and png, \<open>dashboard.jpeg\<close> and \<open>dashboard.png\<close>; for
  html, \<open>dashboard.html\<close>. The file name is a function of the title and the format
  alone.
\<close>

theorem export_filenames:
  assumes "exportDashboard pf d format cv = Inr r" "success r"
  shows "(format = ''pdf'' \<longrightarrow> filename r = Some (spec_filename (d_title d) ''.pdf''))
       \<and> (format = ''pptx'' \<longrightarrow> filename r = Some (spec_filename (d_title d) ''.pptx''))
       \<and> (format = ''jpeg'' \<longrightarrow> filename r = Some ''dashboard.jpeg'')
       \<and> (format = ''png'' \<longrightarrow> filename r = Some ''dashboard.png'')
       \<and> (format = ''html'' \<longrightarrow> filename r = Some ''dashboard.html'')"
proof -
  have pdf: "format = ''pdf'' \<longrightarrow> filename r = Some (spec_filename (d_title d) ''.pdf'')"
    using assms
    by (auto simp: exportDashboard_def catch_block_def dispatch_def exportAsPDF_def
        title_filename_spec split: sum.splits)
  have pptx: "format = ''pptx'' \<longrightarrow> filename r = Some (spec_filename (d_title d) ''.pptx'')"
    using assms
    by (auto simp: exportDashboard_def catch_block_def dispatch_def exportAsPowerPoint_def
        title_filename_spec split: sum.splits)
  have jpeg: "format = ''jpeg'' \<longrightarrow> filename r = Some ''dashboard.jpeg''"
    using assms
    by (auto simp: exportDashboard_def catch_block_def dispatch_def exportAsImage_def
        split: sum.splits)
  have png: "format = ''png'' \<longrightarrow> filename r = Some ''dashboard.png''"
    using assms
    by (auto simp: exportDashboard_def catch_block_def dispatch_def exportAsImage_def
        split: sum.splits)
  have html: "format = ''html'' \<longrightarrow> filename r = Some ''dashboard.html''"
    using assms
    by (auto simp: exportDashboard_def catch_block_def dispatch_def exportAsHTML_def Let_def
        split: sum.splits)
  from pdf pptx jpeg png html show ?thesis
    by blast
qed

lemma sample_filenames:
  "spec_filename ''Sales Overview'' ext = ''sales_overview'' @ ext"
  "spec_filename ''Q1   Sales  Report'' ext = ''q1_sales_report'' @ ext"
  by (simp_all add: spec_filename_def lower_char_def is_white_space_def char_of_eq_iff)

lemma sample_title_filename:
  "title_filename (d_title (sample_dashboard cs)) ext = ''sales_overview'' @ ext"
  by (simp add: title_filename_spec sample_dashboard_def sample_filenames)

lemma sample_exports:
  "exportDashboard sample_platform (sample_dashboard cs) ''pdf'' sample_canvas
     = Inr (success_response ''blob:pdf-bytes'' ''sales_overview.pdf'')"
  "exportDashboard sample_platform (sample_dashboard cs) ''png'' sample_canvas
     = Inr (success_response ''data:image'' ''dashboard.png'')"
  "exportDashboard sample_platform (sample_dashboard cs) ''html'' sample_canvas
     = Inr (success_response
              (''data:text/html;charset=utf-8,'' @ generateHTMLCode sample_runtime (sample_dashboard cs))
              ''dashboard.html'')"
  by (simp_all add: exportDashboard_def dispatch_def exportAsPDF_def exportAsImage_def
      exportAsHTML_def Let_def sample_platform_def sample_canvas_def success_response_def
      sample_title_filename)

theorem export_filenames_witness:
  "exportDashboard sample_platform (sample_dashboard []) ''pdf'' sample_canvas
     = Inr (success_response ''blob:pdf-bytes'' ''sales_overview.pdf'')
   \<and> filename (success_response ''blob:pdf-bytes'' ''sales_overview.pdf'') = Some ''sales_overview.pdf''
   \<and> exportDashboard sample_platform (sample_dashboard []) ''png'' sample_canvas
     = Inr (success_response ''data:image'' ''dashboard.png'')
   \<and> filename (success_response ''data:image'' ''dashboard.png'') = Some ''dashboard.png''
   \<and> exportDashboard sample_platform (sample_dashboard []) ''html'' sample_canvas
     = Inr (success_response
              (''data:text/html;charset=utf-8,'' @ generateHTMLCode sample_runtime (sample_dashboard []))
              ''dashboard.html'')
   \<and> filename (success_response
              (''data:text/html;charset=utf-8,'' @ generateHTMLCode sample_runtime (sample_dashboard []))
              ''dashboard.html'') = Some ''dashboard.html''"
proof -
  have title: "d_title (sample_dashboard []) = ''Sales Overview''"
    by (simp add: sample_dashboard_def)
  have ok: "success (success_response url name)" for url name
    by (simp add: success_response_def)
  from export_filenames [OF sample_exports(1) [of "[]"] ok]
    export_filenames [OF sample_exports(2) [of "[]"] ok]
    export_filenames [OF sample_exports(3) [of "[]"] ok] sample_exports [of "[]"]
  show ?thesis
    by (simp add: title sample_filenames)
qed

section \<open>Properties of the presentation renderer\<close>

lemma forEach_component_append:
  "forEach_component rt th (xs @ ys) calls =
     (case forEach_component rt th xs calls of
        Inl e \<Rightarrow> Inl e
      | Inr calls' \<Rightarrow> forEach_component rt th ys calls')"
  by (induction xs arbitrary: calls) (auto split: sum.splits)

lemma component_calls_other:
  "c_type c \<noteq> ''chart'' \<Longrightarrow> c_type c \<noteq> ''kpi'' \<Longrightarrow> component_calls rt th c = Inr []"
  by (simp add: component_calls_def split: prod.splits)

lemma forEach_component_skip:
  assumes "component_calls rt th c = Inr []"
  shows "forEach_component rt th (xs @ c # ys) calls = forEach_component rt th (xs @ ys) calls"
  using assms by (simp add: forEach_component_append split: sum.splits)

text \<open>The calls of a component are among the calls of the finished loop.\<close>

lemma forEach_component_keeps:
  "forEach_component rt th cs calls = Inr out \<Longrightarrow> set calls \<subseteq> set out"
proof (induction cs arbitrary: calls)
  case Nil
  then show ?case by simp
next
  case (Cons a cs)
  show ?case
  proof (cases "component_calls rt th a")
    case (Inl e)
    with Cons.prems show ?thesis by simp
  next
    case (Inr new)
    with Cons.prems have "forEach_component rt th cs (calls @ new) = Inr out"
      by simp
    then have "set (calls @ new) \<subseteq> set out"
      by (rule Cons.IH)
    then show ?thesis by simp
  qed
qed

lemma forEach_component_holds:
  assumes "forEach_component rt th cs calls = Inr out" "c \<in> set cs"
    and "component_calls rt th c = Inr new"
  shows "set new \<subseteq> set out"
  using assms(1,2)
proof (induction cs arbitrary: calls)
  case Nil
  then show ?case by simp
next
  case (Cons a cs)
  show ?case
  proof (cases "component_calls rt th a")
    case (Inl e)
    with Cons.prems show ?thesis by simp
  next
    case (Inr new')
    with Cons.prems have run: "forEach_component rt th cs (calls @ new') = Inr out"
      by simp
    show ?thesis
    proof (cases "a = c")
      case True
      with Inr assms(3) have "new' = new" by simp
      with forEach_component_keeps [OF run] show ?thesis by simp
    next
      case False
      with Cons.prems have "c \<in> set cs" by simp
      with run show ?thesis by (rule Cons.IH)
    qed
  qed
qed

lemma build_slide_components:
  "build_slide rt (d\<lparr>d_components := cs\<rparr>) = forEach_component rt (d_theme d) cs [title_call d]"
  by (simp add: build_slide_def title_call_def)

lemma exportDashboard_pptx:
  "exportDashboard pf d ''pptx'' cv =
     (case build_slide (js pf) d of
        Inl e \<Rightarrow> catch_block (js pf) e
      | Inr calls \<Rightarrow>
          (case pptx_write pf \<lparr>layout = ''LAYOUT_16x9'', slide = calls\<rparr> of
             Inl e \<Rightarrow> catch_block (js pf) e
           | Inr pptxBlob \<Rightarrow>
               (case createObjectURL pf pptxBlob of
                  Inl e \<Rightarrow> catch_block (js pf) e
                | Inr url \<Rightarrow> Inr (success_response url (title_filename (d_title d) ''.pptx'')))))"
  by (simp add: exportDashboard_def dispatch_def exportAsPowerPoint_def success_response_def
      split: sum.splits)

lemma catch_block_fails: "catch_block rt e = Inr r \<Longrightarrow> \<not> success r"
  by (auto simp: catch_block_def split: sum.splits)

text \<open>A pptx export that succeeds has handed the built slide to the presentation library.\<close>

lemma exportDashboard_pptx_slide:
  assumes "exportDashboard pf d ''pptx'' cv = Inr r" "success r"
  shows "\<exists>calls blob. build_slide (js pf) d = Inr calls
           \<and> pptx_write pf \<lparr>layout = ''LAYOUT_16x9'', slide = calls\<rparr> = Inr blob"
  using assms by (auto simp: exportDashboard_pptx split: sum.splits dest: catch_block_fails)

text \<open>
  Claim C8. A component whose type is neither \<open>chart\<close> nor \<open>kpi\<close> makes no call on
  the slide and throws nothing. The slide, and with it the result of the pptx export, is
  the one of the dashboard without that component; a dashboard holding only such a
  component is exported with success whenever the presentation library writes the
  slide.
\<close>

theorem unknown_component_skipped:
  assumes "c_type c \<noteq> ''chart''" "c_type c \<noteq> ''kpi''"
  shows "component_calls rt th c = Inr []
       \<and> build_slide rt (d\<lparr>d_components := xs @ c # ys\<rparr>) = build_slide rt (d\<lparr>d_components := xs @ ys\<rparr>)
       \<and> exportDashboard pf (d\<lparr>d_components := xs @ c # ys\<rparr>) ''pptx'' cv
           = exportDashboard pf (d\<lparr>d_components := xs @ ys\<rparr>) ''pptx'' cv
       \<and> (pptx_write pf \<lparr>layout = ''LAYOUT_16x9'', slide = [title_call d]\<rparr> = Inr blob
            \<and> createObjectURL pf blob = Inr url \<longrightarrow>
          exportDashboard pf (d\<lparr>d_components := [c]\<rparr>) ''pptx'' cv
            = Inr (success_response url (title_filename (d_title d) ''.pptx'')))"
proof -
  have none: "component_calls rt th c = Inr []" for rt th
    using assms by (rule component_calls_other)
  have same: "build_slide rt (d\<lparr>d_components := xs @ c # ys\<rparr>)
      = build_slide rt (d\<lparr>d_components := xs @ ys\<rparr>)" for rt
    by (simp only: build_slide_components forEach_component_skip [OF none])
  have export: "exportDashboard pf (d\<lparr>d_components := xs @ c # ys\<rparr>) ''pptx'' cv
           = exportDashboard pf (d\<lparr>d_components := xs @ ys\<rparr>) ''pptx'' cv"
    by (simp add: exportDashboard_pptx same split: sum.splits)
  have alone: "pptx_write pf \<lparr>layout = ''LAYOUT_16x9'', slide = [title_call d]\<rparr> = Inr blob
            \<and> createObjectURL pf blob = Inr url \<longrightarrow>
          exportDashboard pf (d\<lparr>d_components := [c]\<rparr>) ''pptx'' cv
            = Inr (success_response url (title_filename (d_title d) ''.pptx''))"
    by (simp add: exportDashboard_pptx build_slide_components none)
  from none same export alone show ?thesis
    by blast
qed

theorem unknown_component_skipped_witness:
  "component_calls sample_runtime sample_theme table_component = Inr []
   \<and> exportDashboard sample_platform (sample_dashboard [revenue_kpi, table_component]) ''pptx'' sample_canvas
       = exportDashboard sample_platform (sample_dashboard [revenue_kpi]) ''pptx'' sample_canvas
   \<and> exportDashboard sample_platform (sample_dashboard [table_component]) ''pptx'' sample_canvas
       = Inr (success_response ''blob:pptx-bytes'' ''sales_overview.pptx'')"
proof -
  have ty: "c_type table_component \<noteq> ''chart''" "c_type table_component \<noteq> ''kpi''"
    by (simp_all add: table_component_def)
  have pf: "pptx_write sample_platform \<lparr>layout = ''LAYOUT_16x9'', slide = [title_call (sample_dashboard [])]\<rparr>
              = Inr ''pptx-bytes''
            \<and> createObjectURL sample_platform ''pptx-bytes'' = Inr ''blob:pptx-bytes''"
    by (simp add: sample_platform_def)
  have ds: "(sample_dashboard [])\<lparr>d_components := [revenue_kpi] @ table_component # []\<rparr>
              = sample_dashboard [revenue_kpi, table_component]"
    "(sample_dashboard [])\<lparr>d_components := [revenue_kpi] @ []\<rparr> = sample_dashboard [revenue_kpi]"
    "(sample_dashboard [])\<lparr>d_components := [table_component]\<rparr> = sample_dashboard [table_component]"
    by (simp_all add: sample_dashboard_def)
  from unknown_component_skipped [OF ty, where rt = sample_runtime and th = sample_theme
      and d = "sample_dashboard []" and xs = "[revenue_kpi]" and ys = "[]"
      and pf = sample_platform and cv = sample_canvas and blob = "''pptx-bytes''"
      and url = "''blob:pptx-bytes''"] pf
  show ?thesis
    by (simp only: ds sample_title_filename) simp
qed

lemma component_calls_error:
  "component_calls rt th c = Inl e \<Longrightarrow> e = TypeError (undefined_read_message rt ''labels'')"
  by (auto simp: component_calls_def split: prod.splits if_splits list.splits)

lemma component_calls_no_dataset:
  "c_type c = ''chart'' \<Longrightarrow> datasets (c_data c) = Some [] \<Longrightarrow>
   component_calls rt th c = Inl (TypeError (undefined_read_message rt ''labels''))"
  by (simp add: component_calls_def split: prod.splits)

lemma forEach_component_no_dataset:
  assumes "c \<in> set cs" "c_type c = ''chart''" "datasets (c_data c) = Some []"
  shows "forEach_component rt th cs calls = Inl (TypeError (undefined_read_message rt ''labels''))"
  using assms(1)
proof (induction cs arbitrary: calls)
  case Nil
  then show ?case by simp
next
  case (Cons a cs)
  show ?case
  proof (cases "component_calls rt th a")
    case (Inl e)
    then show ?thesis using component_calls_error [OF Inl] by simp
  next
    case (Inr new)
    then have "a \<noteq> c"
      using component_calls_no_dataset [OF assms(2,3), of rt th] by auto
    with Cons.prems have "c \<in> set cs" by simp
    then show ?thesis using Inr Cons.IH by simp
  qed
qed

text \<open>
  Claim C9. A chart component whose \<open>datasets\<close> array is present and empty makes the
  loop body throw the \<open>TypeError\<close> of reading \<open>labels\<close> of \<open>undefined\<close>: no chart is
  added and the component is not skipped. The pptx export of any dashboard that
  contains such a component returns the failure response with the text
  \<open>Export failed: \<close> followed by the message of that error.
\<close>

theorem empty_datasets_fail_export:
  assumes "c \<in> set (d_components d)" "c_type c = ''chart''" "datasets (c_data c) = Some []"
  shows "component_calls (js pf) (d_theme d) c = Inl (TypeError (undefined_read_message (js pf) ''labels''))
       \<and> build_slide (js pf) d = Inl (TypeError (undefined_read_message (js pf) ''labels''))
       \<and> exportDashboard pf d ''pptx'' cv
           = Inr (failure_response (''Export failed: '' @ undefined_read_message (js pf) ''labels''))"
proof -
  have slide: "build_slide (js pf) d = Inl (TypeError (undefined_read_message (js pf) ''labels''))"
    unfolding build_slide_def by (rule forEach_component_no_dataset [OF assms])
  then have "exportDashboard pf d ''pptx'' cv
           = Inr (failure_response (''Export failed: '' @ undefined_read_message (js pf) ''labels''))"
    by (simp add: exportDashboard_pptx catch_block_def failure_response_def)
  with slide component_calls_no_dataset [OF assms(2,3)] show ?thesis
    by blast
qed

theorem empty_datasets_fail_export_witness:
  "exportDashboard sample_platform (sample_dashboard [revenue_kpi, chart_with_no_dataset]) ''pptx'' sample_canvas
     = Inr (failure_response ''Export failed: Cannot read properties of undefined (reading 'labels')'')"
proof -
  let ?d = "sample_dashboard [revenue_kpi, chart_with_no_dataset]"
  have 1: "chart_with_no_dataset \<in> set (d_components ?d)"
    by (simp add: sample_dashboard_def)
  have 2: "c_type chart_with_no_dataset = ''chart''"
    by (simp add: chart_with_no_dataset_def ab_chart_def)
  have 3: "datasets (c_data chart_with_no_dataset) = Some []"
    by (simp add: chart_with_no_dataset_def)
  from empty_datasets_fail_export [OF 1 2 3, of sample_platform sample_canvas]
  show ?thesis
    by (simp add: sample_platform_def sample_runtime_def)
qed



lemma zip_upt_map:
  "map (\<lambda>(x, i). f x i) (zip ls [0..<length ls]) = map (\<lambda>i. f (ls ! i) i) [0..<length ls]"
  by (rule nth_equalityI) simp_all

lemma chart_series_spec: "chart_series chartData = spec_series chartData"
proof (cases "labels chartData")
  case None
  then show ?thesis
    by (simp add: chart_series_def spec_series_def)
next
  case (Some ls)
  have "map (\<lambda>(label, i). \<lparr>name = label, vals = [index_or_undefined (data chartData) i]\<rparr>)
            (zip ls [0..<length ls])
        = map (\<lambda>i. \<lparr>name = ls ! i, vals = [index_or_undefined (data chartData) i]\<rparr>) [0..<length ls]"
    by (rule zip_upt_map)
  with Some show ?thesis
    by (simp add: chart_series_def spec_series_def index_or_undefined_def)
qed

lemma chart_calls_absent:
  "c_type c = ''chart'' \<Longrightarrow> datasets (c_data c) = None \<Longrightarrow> component_calls rt th c = Inr []"
  by (simp add: component_calls_def split: prod.splits)

lemma chart_calls_present:
  assumes "c_type c = ''chart''" "datasets (c_data c) = Some (chartData # rest)"
    and "slide_geometry c = (x, y, w, h)"
  shows "component_calls rt th c
           = Inr [addChart ''bar'' (spec_series chartData)
                    \<lparr>ch_x = x, ch_y = y, ch_w = w, ch_h = h, ch_title = c_title c\<rparr>]"
  using assms by (simp add: component_calls_def chart_series_spec)

text \<open>
  Claim C6, as amended. For a chart component whose \<open>datasets\<close> array is present and
  not empty, the renderer adds one bar chart built from the first dataset alone: one
  series entry per label, named by \<open>labels[i]\<close> and holding \<open>[data[i]]\<close>, and the empty
  series when the labels are absent. When the \<open>datasets\<close> field is absent, no chart is
  added for the component. In both cases the loop body throws nothing and the loop goes
  on to the next component, in any dashboard; and when a pptx export that contains the
  chart succeeds, the slide handed to the presentation library holds that chart.
\<close>

theorem chart_series_first_dataset:
  assumes "c_type c = ''chart''" "slide_geometry c = (x, y, w, h)"
  shows "(datasets (c_data c) = None \<longrightarrow>
            component_calls rt th c = Inr []
            \<and> forEach_component rt th (c # cs) calls = forEach_component rt th cs calls)
       \<and> (datasets (c_data c) = Some (chartData # rest) \<longrightarrow>
            component_calls rt th c
              = Inr [addChart ''bar'' (spec_series chartData)
                       \<lparr>ch_x = x, ch_y = y, ch_w = w, ch_h = h, ch_title = c_title c\<rparr>]
            \<and> forEach_component rt th (c # cs) calls
                = forEach_component rt th cs
                    (calls @ [addChart ''bar'' (spec_series chartData)
                                \<lparr>ch_x = x, ch_y = y, ch_w = w, ch_h = h, ch_title = c_title c\<rparr>])
            \<and> (labels chartData = None \<longrightarrow> spec_series chartData = [])
            \<and> (c \<in> set (d_components d) \<and> exportDashboard pf d ''pptx'' cv = Inr r \<and> success r \<longrightarrow>
                 (\<exists>slide_calls blob.
                    build_slide (js pf) d = Inr slide_calls
                    \<and> pptx_write pf \<lparr>layout = ''LAYOUT_16x9'', slide = slide_calls\<rparr> = Inr blob
                    \<and> addChart ''bar'' (spec_series chartData)
                         \<lparr>ch_x = x, ch_y = y, ch_w = w, ch_h = h, ch_title = c_title c\<rparr>
                        \<in> set slide_calls)))"
proof (intro conjI impI)
  assume "datasets (c_data c) = None"
  with assms(1) show "component_calls rt th c = Inr []"
    by (rule chart_calls_absent)
next
  assume "datasets (c_data c) = None"
  with assms(1) have "component_calls rt th c = Inr []"
    by (rule chart_calls_absent)
  then show "forEach_component rt th (c # cs) calls = forEach_component rt th cs calls"
    by simp
next
  assume "datasets (c_data c) = Some (chartData # rest)"
  with assms(1) show "component_calls rt th c
              = Inr [addChart ''bar'' (spec_series chartData)
                       \<lparr>ch_x = x, ch_y = y, ch_w = w, ch_h = h, ch_title = c_title c\<rparr>]"
    using assms(2) by (rule chart_calls_present)
next
  assume "datasets (c_data c) = Some (chartData # rest)"
  with assms(1) have "component_calls rt th c
              = Inr [addChart ''bar'' (spec_series chartData)
                       \<lparr>ch_x = x, ch_y = y, ch_w = w, ch_h = h, ch_title = c_title c\<rparr>]"
    using assms(2) by (rule chart_calls_present)
  then show "forEach_component rt th (c # cs) calls
                = forEach_component rt th cs
                    (calls @ [addChart ''bar'' (spec_series chartData)
                                \<lparr>ch_x = x, ch_y = y, ch_w = w, ch_h = h, ch_title = c_title c\<rparr>])"
    by simp
next
  assume "labels chartData = None"
  then show "spec_series chartData = []"
    by (simp add: spec_series_def)
next
  assume ds: "datasets (c_data c) = Some (chartData # rest)"
    and run: "c \<in> set (d_components d) \<and> exportDashboard pf d ''pptx'' cv = Inr r \<and> success r"
  from run obtain slide_calls blob where built: "build_slide (js pf) d = Inr slide_calls"
    and written: "pptx_write pf \<lparr>layout = ''LAYOUT_16x9'', slide = slide_calls\<rparr> = Inr blob"
    using exportDashboard_pptx_slide by blast
  have "set [addChart ''bar'' (spec_series chartData)
               \<lparr>ch_x = x, ch_y = y, ch_w = w, ch_h = h, ch_title = c_title c\<rparr>] \<subseteq> set slide_calls"
    using built run chart_calls_present [OF assms(1) ds assms(2)]
    unfolding build_slide_def by (intro forEach_component_holds) blast+
  with built written show "\<exists>slide_calls blob.
                    build_slide (js pf) d = Inr slide_calls
                    \<and> pptx_write pf \<lparr>layout = ''LAYOUT_16x9'', slide = slide_calls\<rparr> = Inr blob
                    \<and> addChart ''bar'' (spec_series chartData)
                         \<lparr>ch_x = x, ch_y = y, ch_w = w, ch_h = h, ch_title = c_title c\<rparr>
                        \<in> set slide_calls"
    by auto
qed

lemma sample_chart_geometry:
  "slide_geometry ab_chart
     = (mul64 (div64 400 800) 10, add64 (mul64 (div64 225 450) (binary64 5.6)) (binary64 1.2),
        mul64 (div64 400 800) 10, mul64 (div64 225 450) (binary64 5.6))"
  "slide_geometry unlabelled_chart = slide_geometry ab_chart"
  "slide_geometry chart_without_datasets = slide_geometry ab_chart"
  by (simp_all add: slide_geometry_def ab_chart_def unlabelled_chart_def chart_without_datasets_def)

theorem chart_series_first_dataset_witness:
  "build_slide sample_runtime (sample_dashboard [ab_chart, chart_without_datasets, unlabelled_chart])
     = Inr [title_call (sample_dashboard []),
            addChart ''bar'' [\<lparr>name = ''A'', vals = [Some 1]\<rparr>, \<lparr>name = ''B'', vals = [Some 2]\<rparr>]
              \<lparr>ch_x = mul64 (div64 400 800) 10,
               ch_y = add64 (mul64 (div64 225 450) (binary64 5.6)) (binary64 1.2),
               ch_w = mul64 (div64 400 800) 10, ch_h = mul64 (div64 225 450) (binary64 5.6),
               ch_title = Some ''Totals''\<rparr>,
            addChart ''bar'' []
              \<lparr>ch_x = mul64 (div64 400 800) 10,
               ch_y = add64 (mul64 (div64 225 450) (binary64 5.6)) (binary64 1.2),
               ch_w = mul64 (div64 400 800) 10, ch_h = mul64 (div64 225 450) (binary64 5.6),
               ch_title = Some ''Totals''\<rparr>]"
proof -
  have ty: "c_type ab_chart = ''chart''" "c_type unlabelled_chart = ''chart''"
    "c_type chart_without_datasets = ''chart''"
    by (simp_all add: ab_chart_def unlabelled_chart_def chart_without_datasets_def)
  have ds: "datasets (c_data chart_without_datasets) = None"
    "datasets (c_data ab_chart) = Some (\<lparr>labels = Some [''A'', ''B''], data = [1, 2]\<rparr> # [])"
    "datasets (c_data unlabelled_chart) = Some (\<lparr>labels = None, data = [1, 2]\<rparr> # [])"
    by (simp_all add: ab_chart_def unlabelled_chart_def chart_without_datasets_def)
  have series: "spec_series \<lparr>labels = Some [''A'', ''B''], data = [1, 2]\<rparr>
      = [\<lparr>name = ''A'', vals = [Some 1]\<rparr>, \<lparr>name = ''B'', vals = [Some 2]\<rparr>]"
    by (simp add: spec_series_def upt_rec)
  have titles: "c_title ab_chart = Some ''Totals''" "c_title unlabelled_chart = Some ''Totals''"
    by (simp_all add: ab_chart_def unlabelled_chart_def)
  have geo: "slide_geometry unlabelled_chart
     = (mul64 (div64 400 800) 10, add64 (mul64 (div64 225 450) (binary64 5.6)) (binary64 1.2),
        mul64 (div64 400 800) 10, mul64 (div64 225 450) (binary64 5.6))"
    "slide_geometry chart_without_datasets
     = (mul64 (div64 400 800) 10, add64 (mul64 (div64 225 450) (binary64 5.6)) (binary64 1.2),
        mul64 (div64 400 800) 10, mul64 (div64 225 450) (binary64 5.6))"
    by (simp_all add: sample_chart_geometry)
  have start: "build_slide sample_runtime (sample_dashboard [ab_chart, chart_without_datasets, unlabelled_chart])
      = forEach_component sample_runtime sample_theme
          [ab_chart, chart_without_datasets, unlabelled_chart] [title_call (sample_dashboard [])]"
    by (simp add: build_slide_def sample_dashboard_def title_call_def)
  note first = chart_series_first_dataset [OF ty(1) sample_chart_geometry(1),
      where rt = sample_runtime and th = sample_theme
      and chartData = "\<lparr>labels = Some [''A'', ''B''], data = [1, 2]\<rparr>" and rest = "[]"]
  note second = chart_series_first_dataset [OF ty(3) geo(2),
      where rt = sample_runtime and th = sample_theme]
  note third = chart_series_first_dataset [OF ty(2) geo(1),
      where rt = sample_runtime and th = sample_theme
      and chartData = "\<lparr>labels = None, data = [1, 2]\<rparr>" and rest = "[]"]
  from first ds(2) have 1: "forEach_component sample_runtime sample_theme (ab_chart # cs) calls
      = forEach_component sample_runtime sample_theme cs
          (calls @ [addChart ''bar'' [\<lparr>name = ''A'', vals = [Some 1]\<rparr>, \<lparr>name = ''B'', vals = [Some 2]\<rparr>]
              \<lparr>ch_x = mul64 (div64 400 800) 10,
               ch_y = add64 (mul64 (div64 225 450) (binary64 5.6)) (binary64 1.2),
               ch_w = mul64 (div64 400 800) 10, ch_h = mul64 (div64 225 450) (binary64 5.6),
               ch_title = Some ''Totals''\<rparr>])" for cs calls
    by (simp add: series titles)
  from second ds(1) have 2: "forEach_component sample_runtime sample_theme (chart_without_datasets # cs) calls
      = forEach_component sample_runtime sample_theme cs calls" for cs calls
    by simp
  from third ds(3) have 3: "forEach_component sample_runtime sample_theme (unlabelled_chart # cs) calls
      = forEach_component sample_runtime sample_theme cs
          (calls @ [addChart ''bar'' []
              \<lparr>ch_x = mul64 (div64 400 800) 10,
               ch_y = add64 (mul64 (div64 225 450) (binary64 5.6)) (binary64 1.2),
               ch_w = mul64 (div64 400 800) 10, ch_h = mul64 (div64 225 450) (binary64 5.6),
               ch_title = Some ''Totals''\<rparr>])" for cs calls
    by (simp add: titles)
  show ?thesis
    by (simp only: start 1 2 3) simp
qed

text \<open>
  Claim C6 as stated fails when the dataset is absent: without the \<open>datasets\<close> field no
  chart is added at all, and with an empty \<open>datasets\<close> array the export fails.
\<close>

theorem chart_absent_dataset_counterexample:
  "component_calls sample_runtime sample_theme chart_without_datasets = Inr []
   \<and> build_slide sample_runtime (sample_dashboard [chart_without_datasets])
       = Inr [title_call (sample_dashboard [chart_without_datasets])]
   \<and> component_calls sample_runtime sample_theme chart_with_no_dataset
       = Inl (TypeError ''Cannot read properties of undefined (reading 'labels')'')
   \<and> exportDashboard sample_platform (sample_dashboard [chart_with_no_dataset]) ''pptx'' sample_canvas
       = Inr (failure_response ''Export failed: Cannot read properties of undefined (reading 'labels')'')"
proof -
  have 1: "component_calls sample_runtime sample_theme chart_without_datasets = Inr []"
    by (simp add: component_calls_def chart_without_datasets_def ab_chart_def split: prod.splits)
  have 2: "component_calls sample_runtime sample_theme chart_with_no_dataset
       = Inl (TypeError ''Cannot read properties of undefined (reading 'labels')'')"
    by (simp add: component_calls_def chart_with_no_dataset_def ab_chart_def sample_runtime_def
        split: prod.splits)
  have 3: "build_slide sample_runtime (sample_dashboard [chart_without_datasets])
       = Inr [title_call (sample_dashboard [chart_without_datasets])]"
    by (simp add: build_slide_def sample_dashboard_def 1)
  have 4: "build_slide sample_runtime (sample_dashboard [chart_with_no_dataset])
       = Inl (TypeError ''Cannot read properties of undefined (reading 'labels')'')"
    by (simp add: build_slide_def sample_dashboard_def 2)
  have js: "js sample_platform = sample_runtime"
    by (simp add: sample_platform_def)
  have 5: "exportDashboard sample_platform (sample_dashboard [chart_with_no_dataset]) ''pptx'' sample_canvas
       = Inr (failure_response ''Export failed: Cannot read properties of undefined (reading 'labels')'')"
    by (simp add: exportDashboard_pptx js 4 catch_block_def failure_response_def)
  from 1 2 3 5 show ?thesis
    by simp
qed






section \<open>Clipboard failure in the markup export\<close>

lemma exportDashboard_html:
  "exportDashboard pf d ''html'' cv =
     (case clipboard_writeText pf (generateHTMLCode (js pf) d) of
        Inl e \<Rightarrow> catch_block (js pf) e
      | Inr _ \<Rightarrow>
          (case encodeURIComponent pf (generateHTMLCode (js pf) d) of
             Inl e \<Rightarrow> catch_block (js pf) e
           | Inr encoded \<Rightarrow>
               Inr (success_response (''data:text/html;charset=utf-8,'' @ encoded) ''dashboard.html'')))"
  by (simp add: exportDashboard_def dispatch_def exportAsHTML_def Let_def success_response_def
      split: sum.splits)

lemma catch_block_message:
  "read_message rt e = Inr m \<Longrightarrow> catch_block rt e = Inr (failure_response (''Export failed: '' @ m))"
  by (simp add: catch_block_def failure_response_def)

text \<open>
  Claim C7, as amended. When the clipboard write of the html export fails with an error
  \<open>e\<close>, the export runs the \<open>catch\<close> block on \<open>e\<close> and never returns a success
  response or an artifact: for an error that carries a message it returns the failure
  response with the text \<open>Export failed: \<close> followed by that message. The generated
  document is returned as the artifact when the clipboard write and the encoding of the
  document both succeed.
\<close>

theorem clipboard_failure_fails_export:
  "(clipboard_writeText pf (generateHTMLCode (js pf) d) = Inl e \<longrightarrow>
      exportDashboard pf d ''html'' cv = catch_block (js pf) e
      \<and> (\<forall>m. read_message (js pf) e = Inr m \<longrightarrow>
            exportDashboard pf d ''html'' cv = Inr (failure_response (''Export failed: '' @ m)))
      \<and> (\<forall>m. e = Error m \<longrightarrow>
            exportDashboard pf d ''html'' cv = Inr (failure_response (''Export failed: '' @ m)))
      \<and> (\<forall>r. exportDashboard pf d ''html'' cv = Inr r \<longrightarrow> \<not> success r \<and> downloadUrl r = None))
   \<and> (clipboard_writeText pf (generateHTMLCode (js pf) d) = Inr ()
        \<and> encodeURIComponent pf (generateHTMLCode (js pf) d) = Inr encoded \<longrightarrow>
      exportDashboard pf d ''html'' cv
        = Inr (success_response (''data:text/html;charset=utf-8,'' @ encoded) ''dashboard.html''))"
proof (intro conjI impI allI)
  assume "clipboard_writeText pf (generateHTMLCode (js pf) d) = Inl e"
  then show "exportDashboard pf d ''html'' cv = catch_block (js pf) e"
    by (simp add: exportDashboard_html)
next
  fix m
  assume "clipboard_writeText pf (generateHTMLCode (js pf) d) = Inl e"
    and "read_message (js pf) e = Inr m"
  then show "exportDashboard pf d ''html'' cv = Inr (failure_response (''Export failed: '' @ m))"
    by (simp add: exportDashboard_html catch_block_message)
next
  fix m
  assume "clipboard_writeText pf (generateHTMLCode (js pf) d) = Inl e" and "e = Error m"
  then show "exportDashboard pf d ''html'' cv = Inr (failure_response (''Export failed: '' @ m))"
    by (simp add: exportDashboard_html catch_block_message)
next
  fix r
  assume "clipboard_writeText pf (generateHTMLCode (js pf) d) = Inl e"
    and "exportDashboard pf d ''html'' cv = Inr r"
  then have "catch_block (js pf) e = Inr r"
    by (simp add: exportDashboard_html)
  then show "\<not> success r" and "downloadUrl r = None"
    by (auto simp: catch_block_def split: sum.splits)
next
  assume "clipboard_writeText pf (generateHTMLCode (js pf) d) = Inr ()
        \<and> encodeURIComponent pf (generateHTMLCode (js pf) d) = Inr encoded"
  then show "exportDashboard pf d ''html'' cv
        = Inr (success_response (''data:text/html;charset=utf-8,'' @ encoded) ''dashboard.html'')"
    by (simp add: exportDashboard_html)
qed

theorem clipboard_failure_fails_export_witness:
  "exportDashboard clipboard_denied_platform (sample_dashboard []) ''html'' sample_canvas
     = Inr (failure_response ''Export failed: Write permission denied.'')
   \<and> exportDashboard (sample_platform\<lparr>encodeURIComponent := (\<lambda>_. Inr ''%3Chtml%3E'')\<rparr>)
         (sample_dashboard []) ''html'' sample_canvas
     = Inr (success_response ''data:text/html;charset=utf-8,%3Chtml%3E'' ''dashboard.html'')"
proof -
  let ?pf = "sample_platform\<lparr>encodeURIComponent := (\<lambda>_. Inr ''%3Chtml%3E'')\<rparr>"
  have denied: "clipboard_writeText clipboard_denied_platform
                  (generateHTMLCode (js clipboard_denied_platform) (sample_dashboard []))
                = Inl (Error ''Write permission denied.'')"
    by (simp add: clipboard_denied_platform_def)
  have granted: "clipboard_writeText ?pf (generateHTMLCode (js ?pf) (sample_dashboard [])) = Inr ()
      \<and> encodeURIComponent ?pf (generateHTMLCode (js ?pf) (sample_dashboard [])) = Inr ''%3Chtml%3E''"
    by (simp add: sample_platform_def)
  from denied clipboard_failure_fails_export
    [of clipboard_denied_platform "sample_dashboard []" "Error ''Write permission denied.''"
      sample_canvas]
  have 1: "exportDashboard clipboard_denied_platform (sample_dashboard []) ''html'' sample_canvas
     = Inr (failure_response ''Export failed: Write permission denied.'')"
    by (simp add: catch_block_def failure_response_def)
  from granted clipboard_failure_fails_export
    [of ?pf "sample_dashboard []" _ sample_canvas "''%3Chtml%3E''"]
  have 2: "exportDashboard ?pf (sample_dashboard []) ''html'' sample_canvas
     = Inr (success_response ''data:text/html;charset=utf-8,%3Chtml%3E'' ''dashboard.html'')"
    by simp
  from 1 2 show ?thesis
    by simp
qed

text \<open>
  Claim C7 as stated fails: on a platform whose clipboard rejects the write, the html
  export returns a failure response.
\<close>

theorem clipboard_failure_counterexample:
  "clipboard_writeText clipboard_denied_platform
     (generateHTMLCode (js clipboard_denied_platform) (sample_dashboard [revenue_kpi]))
     = Inl (Error ''Write permission denied.'')
   \<and> exportDashboard clipboard_denied_platform (sample_dashboard [revenue_kpi]) ''html'' sample_canvas
       = Inr \<lparr>success = False, downloadUrl = None, filename = None,
              error = Some ''Export failed: Write permission denied.''\<rparr>"
  by (simp add: exportDashboard_def catch_block_def dispatch_def exportAsHTML_def Let_def
      clipboard_denied_platform_def)

end
